theory Spec2Isabelle
  imports Complex_Main "HOL-Library.Multiset" "HOL-Library.Product_Lexorder"
begin

section \<open>Favorita hierarchical baselines: the notebook's data flow\<close>

text \<open>
  The development embeds \<^verbatim>\<open>run_favorita_baselines.ipynb\<close>: the methods
  \<^verbatim>\<open>_sort_hier_df\<close>, \<^verbatim>\<open>_nonzero_indexes_by_row\<close> and \<^verbatim>\<open>load_item_data\<close> of the class
  \<^verbatim>\<open>FavoritaHierarchicalDataset\<close>, the function \<^verbatim>\<open>run_baselines\<close> and the last code
  cell. The two scoring helpers of the class are called nowhere in the notebook and are
  left out. The notebook is glue over pandas, numpy, StatsForecast, HierarchicalForecast
  and datasetsforecast. The pandas and numpy operations it calls are written out below
  with their documented behaviour; the statistical libraries are parameters of the model
  (the record \<open>env\<close>), each allowed to fail.

  Conventions. A date (\<^verbatim>\<open>ds\<close>) is an integer day number, an observation a real number.
  A data frame is the list of its rows in frame order; a row carries its index label where
  the frame has a positional or inherited index. A categorical cell is
  \<open>string option\<close>, \<open>None\<close> being NaN. A CSV file is the list of its data rows, and a
  cell read back from a file is the cell that was written. A sort is the stable sort by
  the key columns.
\<close>

subsection \<open>Errors and frames\<close>

datatype error =
    AssertionError string
  | ValueError string
  | KeyError string
  | FileNotFoundError string
  | LibraryError string

text \<open>The long-format table that \<^verbatim>\<open>FavoritaData.load\<close> returns
  (columns \<^verbatim>\<open>item_id, hier_id, ds, y\<close>), with its index labels.\<close>

record raw_row =
  r_label :: nat
  r_item_id :: int
  r_hier_id :: string
  r_ds :: int
  r_y :: real

text \<open>The table of one item after \<^verbatim>\<open>_sort_hier_df\<close>: \<^verbatim>\<open>hier_id\<close> is renamed
  \<^verbatim>\<open>unique_id\<close> and is categorical.\<close>

record obs_row =
  o_label :: nat
  o_item_id :: int
  o_unique_id :: "string option"
  o_ds :: int
  o_y :: real

text \<open>The selection \<^verbatim>\<open>[["unique_id", 'ds', 'y']]\<close>, index labels kept.\<close>

record y_row =
  y_label :: nat
  y_unique_id :: "string option"
  y_ds :: int
  y_val :: real

text \<open>A frame after \<^verbatim>\<open>set_index('unique_id')\<close>: the old labels are gone.\<close>

record idx_row =
  i_unique_id :: "string option"
  i_ds :: int
  i_val :: real

text \<open>A row of a forecast file or frame (\<^verbatim>\<open>Y_hat\<close>, \<^verbatim>\<open>Y_fitted\<close>, and the reconciled
  file): series, date, then the numeric columns in column order.\<close>

record csv_row =
  c_unique_id :: string
  c_ds :: int
  c_vals :: "real list"

text \<open>A row of the reconciled frame: the output of \<^verbatim>\<open>bootstrap_reconcile\<close> is indexed by
  \<^verbatim>\<open>unique_id\<close> and has a \<^verbatim>\<open>seed\<close> column.\<close>

record boot_row =
  b_unique_id :: string
  b_ds :: int
  b_vals :: "real list"
  b_seed :: nat

record rec_row =
  k_label :: nat
  k_unique_id :: "string option"
  k_ds :: int
  k_vals :: "real list"
  k_seed :: nat

record s_df =
  s_index :: "string list"
  s_columns :: "string list"
  s_values :: "real list list"

type_synonym tags = "(string \<times> string list) list"

record data_info =
  i_horizon :: nat
  i_freq :: string
  i_seasonality :: nat

subsection \<open>The pandas and numpy operations used\<close>

fun index_of :: "'a \<Rightarrow> 'a list \<Rightarrow> nat" where
  "index_of x [] = 0"
| "index_of x (v # vs) = (if x = v then 0 else Suc (index_of x vs))"

text \<open>\<^verbatim>\<open>Index.get_indexer\<close>: the position of each value, \<open>-1\<close> when absent.\<close>

definition get_indexer :: "string list \<Rightarrow> string list \<Rightarrow> int list" where
  "get_indexer idx vals =
     map (\<lambda>v. if v \<in> set idx then int (index_of v idx) else - 1) vals"

text \<open>\<^verbatim>\<open>astype('category')\<close> followed by \<^verbatim>\<open>cat.set_categories(cats)\<close>: a value that is
  not a category becomes NaN.\<close>

definition set_categories :: "string list \<Rightarrow> string \<Rightarrow> string option" where
  "set_categories cats v = (if v \<in> set cats then Some v else None)"

definition recat :: "string list \<Rightarrow> string option \<Rightarrow> string option" where
  "recat cats c = (case c of None \<Rightarrow> None | Some v \<Rightarrow> set_categories cats v)"

text \<open>The sort position of a categorical cell: the position of its category, NaN last.\<close>

definition cat_code :: "string list \<Rightarrow> string option \<Rightarrow> nat" where
  "cat_code cats c = (case c of None \<Rightarrow> length cats | Some v \<Rightarrow> index_of v cats)"

text \<open>\<^verbatim>\<open>groupby('unique_id').tail(n)\<close>: a row is kept when fewer than \<open>n\<close> rows of its
  group follow it; rows whose key is NaN belong to no group. Frame order is kept.\<close>

definition in_tail :: "nat \<Rightarrow> y_row \<Rightarrow> y_row list \<Rightarrow> bool" where
  "in_tail n r rs \<longleftrightarrow>
     y_unique_id r \<noteq> None \<and>
     length (filter (\<lambda>s. y_unique_id s = y_unique_id r) rs) < n"

fun groupby_tail :: "nat \<Rightarrow> y_row list \<Rightarrow> y_row list" where
  "groupby_tail n [] = []"
| "groupby_tail n (r # rs) =
     (if in_tail n r rs then r # groupby_tail n rs else groupby_tail n rs)"

text \<open>\<^verbatim>\<open>DataFrame.drop(labels)\<close>: every row whose index label is among \<open>labels\<close> goes.\<close>

definition df_drop :: "nat list \<Rightarrow> y_row list \<Rightarrow> y_row list" where
  "df_drop labels df = filter (\<lambda>r. y_label r \<notin> set labels) df"

definition set_index :: "y_row \<Rightarrow> idx_row" where
  "set_index r = \<lparr>i_unique_id = y_unique_id r, i_ds = y_ds r, i_val = y_val r\<rparr>"

text \<open>\<^verbatim>\<open>reset_index()\<close>: the index becomes a column again and the rows are labelled
  \<open>0, 1, ...\<close>.\<close>

definition reset_index :: "idx_row list \<Rightarrow> y_row list" where
  "reset_index df =
     map (\<lambda>(n, r). \<lparr>y_label = n, y_unique_id = i_unique_id r, y_ds = i_ds r, y_val = i_val r\<rparr>)
       (enumerate 0 df)"

subsection \<open>\<^verbatim>\<open>FavoritaHierarchicalDataset\<close>\<close>

definition available_datasets :: "string list" where
  "available_datasets = [''Favorita200'', ''Favorita500'', ''FavoritaComplete'']"

text \<open>\<^verbatim>\<open>_sort_hier_df\<close>. \<^verbatim>\<open>set_categories\<close> refuses categories that are not unique.\<close>

definition sort_hier_df :: "raw_row list \<Rightarrow> s_df \<Rightarrow> error + obs_row list" where
  "sort_hier_df Y_df S_df =
     (if \<not> distinct (s_index S_df)
      then Inl (ValueError ''Categorical categories must be unique'')
      else
        let Y_cat = map (\<lambda>r. \<lparr>o_label = r_label r, o_item_id = r_item_id r,
                               o_unique_id = set_categories (s_index S_df) (r_hier_id r),
                               o_ds = r_ds r, o_y = r_y r\<rparr>) Y_df
        in Inr (sort_key (\<lambda>r. (cat_code (s_index S_df) (o_unique_id r), o_ds r)) Y_cat))"

definition nonzero_indexes_by_row :: "real list list \<Rightarrow> nat list list" where
  "nonzero_indexes_by_row M = map (\<lambda>row. filter (\<lambda>j. row ! j \<noteq> 0) [0..<length row]) M"

text \<open>\<^verbatim>\<open>S_df.values.T\<close> for a matrix with \<open>ncols\<close> columns.\<close>

definition values_T :: "nat \<Rightarrow> real list list \<Rightarrow> real list list" where
  "values_T ncols M = map (\<lambda>j. map (\<lambda>row. row ! j) M) [0..<ncols]"


subsection \<open>The libraries and the outside world\<close>

datatype model = AutoARIMA nat | Naive

text \<open>The arguments of \<^verbatim>\<open>StatsForecast(...)\<close> and of \<^verbatim>\<open>fcst.forecast(...)\<close>.\<close>

record fit_args =
  fa_df :: "idx_row list"
  fa_models :: "model list"
  fa_fallback_model :: "model list"
  fa_freq :: string
  fa_n_jobs :: int
  fa_h :: nat
  fa_fitted :: bool
  fa_level :: "nat list"

datatype reconciler =
    BottomUp
  | TopDown string
  | MinTrace string "real option"
  | ERM string

text \<open>The arguments of \<^verbatim>\<open>hrec.bootstrap_reconcile(...)\<close>, \<^verbatim>\<open>hrec\<close> being built from
  \<open>ra_reconcilers\<close>.\<close>

record rec_args =
  ra_reconcilers :: "reconciler list"
  ra_Y_hat_df :: "csv_row list"
  ra_Y_df :: "csv_row list"
  ra_S_df :: s_df
  ra_tags :: tags
  ra_level :: "nat list"
  ra_intervals_method :: string
  ra_num_samples :: nat
  ra_num_seeds :: nat

text \<open>The library calls the notebook makes. \<open>std_normal\<close> is the stream of standard normal
  variates of numpy's global generator; \<open>StatsForecast_forecast\<close> stands for
  \<^verbatim>\<open>fcst.forecast\<close> and \<^verbatim>\<open>fcst.forecast_fitted_values\<close> together.\<close>

record env =
  FavoritaInfo :: "string \<Rightarrow> data_info option"
  FavoritaData_load :: "string \<Rightarrow> string \<Rightarrow> error + (raw_row list \<times> s_df \<times> tags)"
  std_normal :: "nat \<Rightarrow> real"
  StatsForecast_forecast :: "fit_args \<Rightarrow> error + (csv_row list \<times> csv_row list)"
  is_strictly_hierarchical :: "real list list \<Rightarrow> (string \<times> int list) list \<Rightarrow> bool"
  bootstrap_reconcile :: "rec_args \<Rightarrow> error + boot_row list"

text \<open>The state the notebook reads and writes: the CSV files by path, the directories, and
  how many variates the generator has given out. The files the dataset loader keeps under
  its own directory \<^verbatim>\<open>./data/favorita\<close> are the loader's business and not part of
  this state; no library call changes it.\<close>

record world =
  files :: "string \<rightharpoonup> csv_row list"
  dirs :: "string set"
  rng_pos :: nat

datatype event =
    EvLoad string string
  | EvReadCsv string
  | EvWriteCsv string
  | EvForecast fit_args
  | EvReconcile rec_args

text \<open>Every operation returns its value or error, the new state, and the library and file
  calls it made, in order.\<close>

type_synonym 'a result = "(error + 'a) \<times> world \<times> event list"

definition os_path_exists :: "string \<Rightarrow> world \<Rightarrow> bool" where
  "os_path_exists p w \<longleftrightarrow> files w p \<noteq> None \<or> p \<in> dirs w"

text \<open>A path and its ancestors: the path cut before each later \<^verbatim>\<open>/\<close>.\<close>

definition path_prefixes :: "string \<Rightarrow> string list" where
  "path_prefixes p = p # map (\<lambda>i. take i p) (filter (\<lambda>i. p ! i = CHR ''/'') [1..<length p])"

text \<open>\<^verbatim>\<open>os.makedirs\<close>: fails when a file is in the way.\<close>

definition makedirs :: "string \<Rightarrow> world \<Rightarrow> error + world" where
  "makedirs p w =
     (if list_ex (\<lambda>q. files w q \<noteq> None) (path_prefixes p)
      then Inl (LibraryError p)
      else Inr (w\<lparr>dirs := dirs w \<union> set (path_prefixes p)\<rparr>))"

definition read_csv :: "string \<Rightarrow> world \<Rightarrow> error + csv_row list" where
  "read_csv p w = (case files w p of None \<Rightarrow> Inl (FileNotFoundError p) | Some rows \<Rightarrow> Inr rows)"

definition to_csv :: "string \<Rightarrow> csv_row list \<Rightarrow> world \<Rightarrow> world" where
  "to_csv p rows w = w\<lparr>files := (files w)(p \<mapsto> rows)\<rparr>"

text \<open>\<^verbatim>\<open>np.random.normal(loc, scale, size)\<close>.\<close>

definition random_normal :: "env \<Rightarrow> real \<Rightarrow> real \<Rightarrow> nat \<Rightarrow> world \<Rightarrow> real list \<times> world" where
  "random_normal E loc scale n w =
     (map (\<lambda>i. loc + scale * std_normal E (rng_pos w + i)) [0..<n],
      w\<lparr>rng_pos := rng_pos w + n\<rparr>)"

text \<open>The formatting of an integer in an f-string.\<close>

fun str_nat :: "nat \<Rightarrow> string" where
  "str_nat n =
     (if n < 10 then [char_of (48 + n)] else str_nat (n div 10) @ [char_of (48 + n mod 10)])"

declare str_nat.simps [simp del]

definition str_int :: "int \<Rightarrow> string" where
  "str_int i = (if i < 0 then CHR ''-'' # str_nat (nat (- i)) else str_nat (nat i))"

subsection \<open>\<^verbatim>\<open>load_item_data\<close>\<close>

record item_data =
  d_Y_df :: "obs_row list"
  d_S_df :: s_df
  d_tags :: tags
  d_hier_idxs :: "int list list"
  d_hier_levels :: "string list"
  d_hier_linked_idxs :: "nat list list"
  d_horizon :: nat
  d_freq :: string
  d_seasonality :: nat

definition add_noise :: "obs_row list \<Rightarrow> real list \<Rightarrow> obs_row list" where
  "add_noise Y_df noise = map (\<lambda>(r, z). r\<lparr>o_y := o_y r + z\<rparr>) (zip Y_df noise)"

definition load_item_data :: "env \<Rightarrow> int \<Rightarrow> string \<Rightarrow> string \<Rightarrow> world \<Rightarrow> item_data result" where
  "load_item_data E item_id dataset directory w =
     (case FavoritaInfo E dataset of
        None \<Rightarrow> (Inl (KeyError dataset), w, [])
      | Some data_info \<Rightarrow>
        (case FavoritaData_load E directory dataset of
           Inl e \<Rightarrow> (Inl e, w, [EvLoad directory dataset])
         | Inr (Y_all, S_df, tags) \<Rightarrow>
           (case sort_hier_df (filter (\<lambda>r. r_item_id r = item_id) Y_all) S_df of
              Inl e \<Rightarrow> (Inl e, w, [EvLoad directory dataset])
            | Inr Y_df \<Rightarrow>
                let hier_levels = ''Overall'' # map fst tags;
                    hier_idxs = map int [0..<length (s_index S_df)]
                      # map (\<lambda>(level, ids). get_indexer (s_index S_df) ids) tags;
                    hier_linked_idxs =
                      nonzero_indexes_by_row (values_T (length (s_columns S_df)) (s_values S_df));
                    (noise, w') = random_normal E 0 (1 / 100) (length Y_df) w
                in (Inr \<lparr>d_Y_df = add_noise Y_df noise, d_S_df = S_df, d_tags = tags,
                          d_hier_idxs = hier_idxs, d_hier_levels = hier_levels,
                          d_hier_linked_idxs = hier_linked_idxs,
                          d_horizon = i_horizon data_info, d_freq = i_freq data_info,
                          d_seasonality = i_seasonality data_info\<rparr>,
                    w', [EvLoad directory dataset]))))"


subsection \<open>\<^verbatim>\<open>run_baselines\<close>\<close>

text \<open>\<^verbatim>\<open>LEVEL = np.arange(0, 100, 2)\<close>, a global of the last cell.\<close>

definition LEVEL :: "nat list" where
  "LEVEL = map (\<lambda>k. 2 * k) [0..<50]"

text \<open>The train/test split, before the two \<^verbatim>\<open>set_index\<close> calls.\<close>

definition train_test_split :: "nat \<Rightarrow> y_row list \<Rightarrow> y_row list \<times> y_row list" where
  "train_test_split horizon Y_df =
     (let Y_test_df = groupby_tail horizon Y_df;
          Y_train_df = df_drop (map y_label Y_test_df) Y_df
      in (Y_test_df, Y_train_df))"

record parsed =
  p_Y_test_df :: "idx_row list"
  p_Y_train_df :: "idx_row list"
  p_S_df :: s_df
  p_tags :: tags
  p_horizon :: nat
  p_seasonality :: nat
  p_freq :: string

definition select_columns :: "obs_row \<Rightarrow> y_row" where
  "select_columns r =
     \<lparr>y_label = o_label r, y_unique_id = o_unique_id r, y_ds = o_ds r, y_val = o_y r\<rparr>"

text \<open>The block \<^verbatim>\<open>Read and Parse data\<close>. Building the printed summary takes
  \<^verbatim>\<open>min(Y_test_df.ds)\<close>, which raises on an empty test frame.\<close>

definition read_and_parse :: "env \<Rightarrow> int \<Rightarrow> string \<Rightarrow> world \<Rightarrow> parsed result" where
  "read_and_parse E item_id dataset w =
     (case load_item_data E item_id dataset ''./data/favorita'' w of
        (Inl e, w1, evs) \<Rightarrow> (Inl e, w1, evs)
      | (Inr data, w1, evs) \<Rightarrow>
          let Y_df = map select_columns (d_Y_df data);
              (Y_test_df, Y_train_df) = train_test_split (d_horizon data) Y_df
          in if Y_test_df = []
             then (Inl (ValueError ''min() arg is an empty sequence''), w1, evs)
             else (Inr \<lparr>p_Y_test_df = map set_index Y_test_df,
                        p_Y_train_df = map set_index Y_train_df,
                        p_S_df = d_S_df data, p_tags = d_tags data,
                        p_horizon = d_horizon data, p_seasonality = d_seasonality data,
                        p_freq = d_freq data\<rparr>, w1, evs))"

definition item_path :: "string \<Rightarrow> int \<Rightarrow> string" where
  "item_path dataset item_id = ''./data/'' @ dataset @ ''/'' @ str_int item_id"

definition yhat_file :: "string \<Rightarrow> int \<Rightarrow> string" where
  "yhat_file dataset item_id = item_path dataset item_id @ ''/Y_hat.csv''"

definition yfitted_file :: "string \<Rightarrow> int \<Rightarrow> string" where
  "yfitted_file dataset item_id = item_path dataset item_id @ ''/Y_fitted.csv''"

definition yrec_file :: "string \<Rightarrow> int \<Rightarrow> string \<Rightarrow> string" where
  "yrec_file dataset item_id intervals_method =
     item_path dataset item_id @ ''/'' @ intervals_method @ ''_rec.csv''"

definition forecast_args :: "parsed \<Rightarrow> fit_args" where
  "forecast_args P =
     \<lparr>fa_df = p_Y_train_df P, fa_models = [AutoARIMA (p_seasonality P)],
      fa_fallback_model = [Naive], fa_freq = p_freq P, fa_n_jobs = - 1,
      fa_h = p_horizon P, fa_fitted = True, fa_level = LEVEL\<rparr>"

text \<open>The block \<^verbatim>\<open>Fit/Predict Model\<close>. The frames it returns are the ones indexed by
  \<^verbatim>\<open>unique_id\<close>; \<^verbatim>\<open>reset_index\<close>, \<^verbatim>\<open>to_csv(index=False)\<close> and \<^verbatim>\<open>set_index\<close> move
  that column without changing the rows.\<close>

definition fit_predict ::
  "env \<Rightarrow> string \<Rightarrow> int \<Rightarrow> parsed \<Rightarrow> world \<Rightarrow> (csv_row list \<times> csv_row list) result" where
  "fit_predict E dataset item_id P w =
     (case makedirs (item_path dataset item_id) w of
        Inl e \<Rightarrow> (Inl e, w, [])
      | Inr w1 \<Rightarrow>
          if os_path_exists (yhat_file dataset item_id) w1 then
            (case read_csv (yhat_file dataset item_id) w1 of
               Inl e \<Rightarrow> (Inl e, w1, [EvReadCsv (yhat_file dataset item_id)])
             | Inr Y_hat_df \<Rightarrow>
               (case read_csv (yfitted_file dataset item_id) w1 of
                  Inl e \<Rightarrow> (Inl e, w1, [EvReadCsv (yhat_file dataset item_id),
                                          EvReadCsv (yfitted_file dataset item_id)])
                | Inr Y_fitted_df \<Rightarrow>
                    (Inr (Y_hat_df, Y_fitted_df), w1,
                     [EvReadCsv (yhat_file dataset item_id),
                      EvReadCsv (yfitted_file dataset item_id)])))
          else
            (case (if \<not> os_path_exists (''./data/'' @ dataset) w1
                   then makedirs (''./data/'' @ dataset) w1 else Inr w1) of
               Inl e \<Rightarrow> (Inl e, w1, [])
             | Inr w2 \<Rightarrow>
               (case StatsForecast_forecast E (forecast_args P) of
                  Inl e \<Rightarrow> (Inl e, w2, [EvForecast (forecast_args P)])
                | Inr (Y_hat_df, Y_fitted_df) \<Rightarrow>
                    (Inr (Y_hat_df, Y_fitted_df),
                     to_csv (yfitted_file dataset item_id) Y_fitted_df
                       (to_csv (yhat_file dataset item_id) Y_hat_df w2),
                     [EvForecast (forecast_args P),
                      EvWriteCsv (yhat_file dataset item_id),
                      EvWriteCsv (yfitted_file dataset item_id)]))))"

definition strict_reconcilers :: "reconciler list" where
  "strict_reconcilers =
     [BottomUp, TopDown ''average_proportions'', TopDown ''proportion_averages'',
      MinTrace ''ols'' None, MinTrace ''mint_shrink'' (Some (1 / 1000000)), ERM ''closed'']"

definition loose_reconcilers :: "reconciler list" where
  "loose_reconcilers =
     [BottomUp, MinTrace ''ols'' None, MinTrace ''mint_shrink'' (Some (1 / 1000000)),
      ERM ''closed'']"

definition reconcile_args ::
  "env \<Rightarrow> string \<Rightarrow> parsed \<Rightarrow> csv_row list \<times> csv_row list \<Rightarrow> rec_args" where
  "reconcile_args E intervals_method P Yp =
     \<lparr>ra_reconcilers =
        (if is_strictly_hierarchical E (s_values (p_S_df P))
              (map (\<lambda>(key, val). (key, get_indexer (s_index (p_S_df P)) val)) (p_tags P))
         then strict_reconcilers else loose_reconcilers),
      ra_Y_hat_df = fst Yp, ra_Y_df = snd Yp, ra_S_df = p_S_df P, ra_tags = p_tags P,
      ra_level = LEVEL, ra_intervals_method = intervals_method,
      ra_num_samples = 10, ra_num_seeds = 10\<rparr>"

text \<open>The alignment of the test frame: \<^verbatim>\<open>reset_index\<close>, the categories of
  \<^verbatim>\<open>S_df.index\<close>, \<^verbatim>\<open>sort_values(by=['unique_id', 'ds'])\<close>.\<close>

definition align_test :: "string list \<Rightarrow> idx_row list \<Rightarrow> y_row list" where
  "align_test cats Y_test_df =
     sort_key (\<lambda>r. (cat_code cats (y_unique_id r), y_ds r))
       (map (\<lambda>r. r\<lparr>y_unique_id := recat cats (y_unique_id r)\<rparr>) (reset_index Y_test_df))"

text \<open>The alignment of the reconciled frame, sorted by
  \<^verbatim>\<open>['seed', 'unique_id', 'ds']\<close>.\<close>

definition align_rec :: "string list \<Rightarrow> boot_row list \<Rightarrow> rec_row list" where
  "align_rec cats Y_rec_df =
     sort_key (\<lambda>r. (k_seed r, cat_code cats (k_unique_id r), k_ds r))
       (map (\<lambda>(n, r). \<lparr>k_label = n, k_unique_id = set_categories cats (b_unique_id r),
                         k_ds = b_ds r, k_vals = b_vals r, k_seed = b_seed r\<rparr>)
          (enumerate 0 Y_rec_df))"

text \<open>\<^verbatim>\<open>to_csv(index=False)\<close> of the reconciled frame: the labels are left out, NaN is the
  empty field, \<^verbatim>\<open>seed\<close> is the last column.\<close>

definition rec_to_csv :: "rec_row \<Rightarrow> csv_row" where
  "rec_to_csv r =
     \<lparr>c_unique_id = (case k_unique_id r of None \<Rightarrow> [] | Some v \<Rightarrow> v),
      c_ds = k_ds r, c_vals = k_vals r @ [real (k_seed r)]\<rparr>"

text \<open>The block \<^verbatim>\<open>Reconcile Predictions\<close>.\<close>

definition reconcile_predictions ::
  "env \<Rightarrow> string \<Rightarrow> string \<Rightarrow> int \<Rightarrow> parsed \<Rightarrow> csv_row list \<times> csv_row list \<Rightarrow> world
     \<Rightarrow> (rec_row list \<times> y_row list \<times> idx_row list) result" where
  "reconcile_predictions E intervals_method dataset item_id P Yp w =
     (case bootstrap_reconcile E (reconcile_args E intervals_method P Yp) of
        Inl e \<Rightarrow> (Inl e, w, [EvReconcile (reconcile_args E intervals_method P Yp)])
      | Inr Y_rec_df \<Rightarrow>
          if \<not> distinct (s_index (p_S_df P))
          then (Inl (ValueError ''Categorical categories must be unique''), w,
                [EvReconcile (reconcile_args E intervals_method P Yp)])
          else
            let Y_test_df = align_test (s_index (p_S_df P)) (p_Y_test_df P);
                Y_rec_sorted = align_rec (s_index (p_S_df P)) Y_rec_df
            in (Inr (Y_rec_sorted, Y_test_df, p_Y_train_df P),
                to_csv (yrec_file dataset item_id intervals_method)
                  (map rec_to_csv Y_rec_sorted) w,
                [EvReconcile (reconcile_args E intervals_method P Yp),
                 EvWriteCsv (yrec_file dataset item_id intervals_method)]))"

text \<open>\<^verbatim>\<open>run_baselines(intervals_method, item_id, dataset, verbose, seed)\<close>; \<^verbatim>\<open>verbose\<close>
  only switches the timer's printing and \<^verbatim>\<open>seed\<close> is not used.\<close>

definition run_baselines ::
  "env \<Rightarrow> string \<Rightarrow> int \<Rightarrow> string \<Rightarrow> world
     \<Rightarrow> (rec_row list \<times> y_row list \<times> idx_row list) result" where
  "run_baselines E intervals_method item_id dataset w =
     (case read_and_parse E item_id dataset w of
        (Inl e, w1, ev1) \<Rightarrow> (Inl e, w1, ev1)
      | (Inr P, w1, ev1) \<Rightarrow>
        (case fit_predict E dataset item_id P w1 of
           (Inl e, w2, ev2) \<Rightarrow> (Inl e, w2, ev1 @ ev2)
         | (Inr Yp, w2, ev2) \<Rightarrow>
           (case reconcile_predictions E intervals_method dataset item_id P Yp w2 of
              (r, w3, ev3) \<Rightarrow> (r, w3, ev1 @ ev2 @ ev3))))"

subsection \<open>The last cell\<close>

fun run_items :: "env \<Rightarrow> string \<Rightarrow> string \<Rightarrow> int list \<Rightarrow> world \<Rightarrow> unit result" where
  "run_items E intervals_method dataset [] w = (Inr (), w, [])"
| "run_items E intervals_method dataset (item_id # items) w =
     (case run_baselines E intervals_method item_id dataset w of
        (Inl e, w1, ev1) \<Rightarrow> (Inl e, w1, ev1)
      | (Inr _, w1, ev1) \<Rightarrow>
        (case run_items E intervals_method dataset items w1 of
           (r, w2, ev2) \<Rightarrow> (r, w2, ev1 @ ev2)))"

text \<open>The cell takes \<^verbatim>\<open>intervals_method\<close> and \<^verbatim>\<open>dataset\<close> as the values assigned under
  \<^verbatim>\<open>Parse execution parameters\<close>.\<close>

definition main_cell :: "env \<Rightarrow> string \<Rightarrow> string \<Rightarrow> world \<Rightarrow> unit result" where
  "main_cell E intervals_method dataset w =
     (if intervals_method \<notin> set [''bootstrap'', ''normality'', ''permbu'']
      then (Inl (AssertionError ''Select `--intervals_method` from ['bootstrap', 'normality', 'permbu']''), w, [])
      else if dataset \<notin> set available_datasets
      then (Inl (AssertionError ''Select `--dataset` from ['Favorita200', 'Favorita500', 'FavoritaComplete']''), w, [])
      else
        (case FavoritaData_load E ''./data/favorita/'' ''Favorita200'' of
           Inl e \<Rightarrow> (Inl e, w, [EvLoad ''./data/favorita/'' ''Favorita200''])
         | Inr _ \<Rightarrow>
           (case run_items E intervals_method dataset [112830, 1916577] w of
              (r, w1, evs) \<Rightarrow> (r, w1, EvLoad ''./data/favorita/'' ''Favorita200'' # evs))))"


subsection \<open>\<^verbatim>\<open>bootstrap_reconcile\<close>\<close>

text \<open>
  Modelled from the spec: \<^verbatim>\<open>HierarchicalReconciliation.bootstrap_reconcile\<close> is part of the
  package and not among the sources at hand. The spec has the reconciler produce
  reconciled point and interval forecasts via bootstrap resampling across multiple random
  seeds: one reconciliation of the base forecasts per seed \<open>0, ..., num_seeds - 1\<close>, each
  giving every base-forecast row (series and date) its reconciled columns, the rows of a
  seed marked with it, and all seeds stacked. The reconciliation of one seed is the
  parameter \<open>reconcile\<close>.
\<close>

definition spec_bootstrap_reconcile ::
  "(rec_args \<Rightarrow> nat \<Rightarrow> csv_row \<Rightarrow> real list) \<Rightarrow> rec_args \<Rightarrow> error + boot_row list" where
  "spec_bootstrap_reconcile reconcile args =
     Inr (concat (map (\<lambda>seed.
            map (\<lambda>r. \<lparr>b_unique_id = c_unique_id r, b_ds = c_ds r,
                       b_vals = reconcile args seed r, b_seed = seed\<rparr>) (ra_Y_hat_df args))
          [0..<ra_num_seeds args]))"

subsection \<open>A small hierarchy for concrete runs\<close>

text \<open>Two stores \<open>a\<close> and \<open>b\<close> under \<open>total\<close>, two days of item 7 and one row of item 9;
  the horizon is one day.\<close>

definition demo_S_df :: s_df where
  "demo_S_df = \<lparr>s_index = [''total'', ''a'', ''b''], s_columns = [''a'', ''b''],
                 s_values = [[1, 1], [1, 0], [0, 1]]\<rparr>"

definition demo_tags :: tags where
  "demo_tags = [(''country'', [''total'']), (''store'', [''a'', ''b''])]"

definition demo_rows :: "raw_row list" where
  "demo_rows =
     [\<lparr>r_label = 0, r_item_id = 7, r_hier_id = ''b'', r_ds = 1, r_y = 2\<rparr>,
      \<lparr>r_label = 1, r_item_id = 7, r_hier_id = ''b'', r_ds = 2, r_y = 3\<rparr>,
      \<lparr>r_label = 2, r_item_id = 7, r_hier_id = ''a'', r_ds = 1, r_y = 4\<rparr>,
      \<lparr>r_label = 3, r_item_id = 7, r_hier_id = ''a'', r_ds = 2, r_y = 5\<rparr>,
      \<lparr>r_label = 4, r_item_id = 7, r_hier_id = ''total'', r_ds = 1, r_y = 6\<rparr>,
      \<lparr>r_label = 5, r_item_id = 7, r_hier_id = ''total'', r_ds = 2, r_y = 8\<rparr>,
      \<lparr>r_label = 6, r_item_id = 9, r_hier_id = ''total'', r_ds = 2, r_y = 1\<rparr>]"

definition demo_unique_id :: "idx_row \<Rightarrow> string" where
  "demo_unique_id r = (case i_unique_id r of None \<Rightarrow> [] | Some v \<Rightarrow> v)"

definition demo_env :: env where
  "demo_env =
     \<lparr>FavoritaInfo = (\<lambda>d. if d = ''Favorita200''
                          then Some \<lparr>i_horizon = 1, i_freq = ''D'', i_seasonality = 7\<rparr>
                          else None),
      FavoritaData_load = (\<lambda>directory group. Inr (demo_rows, demo_S_df, demo_tags)),
      std_normal = (\<lambda>i. real i),
      StatsForecast_forecast = (\<lambda>a.
         Inr (map (\<lambda>r. \<lparr>c_unique_id = demo_unique_id r, c_ds = i_ds r + 1,
                           c_vals = [i_val r]\<rparr>) (fa_df a),
              map (\<lambda>r. \<lparr>c_unique_id = demo_unique_id r, c_ds = i_ds r,
                           c_vals = [i_val r]\<rparr>) (fa_df a))),
      is_strictly_hierarchical = (\<lambda>S t. True),
      bootstrap_reconcile =
        spec_bootstrap_reconcile (\<lambda>a seed r. map (\<lambda>v. v + real seed) (c_vals r))\<rparr>"

definition empty_world :: world where
  "empty_world = \<lparr>files = Map.empty, dirs = {}, rng_pos = 0\<rparr>"

text \<open>A world that already holds the two cache files of item 7.\<close>

definition cached_world :: world where
  "cached_world =
     \<lparr>files = [''./data/Favorita200/7/Y_hat.csv'' \<mapsto>
                  [\<lparr>c_unique_id = ''a'', c_ds = 2, c_vals = [4]\<rparr>],
                ''./data/Favorita200/7/Y_fitted.csv'' \<mapsto>
                  [\<lparr>c_unique_id = ''a'', c_ds = 1, c_vals = [4]\<rparr>]],
      dirs = {}, rng_pos = 0\<rparr>"

text \<open>A table in which an index label occurs twice.\<close>

definition dup_table :: "y_row list" where
  "dup_table =
     [\<lparr>y_label = 0, y_unique_id = Some ''a'', y_ds = 1, y_val = 5\<rparr>,
      \<lparr>y_label = 1, y_unique_id = Some ''a'', y_ds = 2, y_val = 6\<rparr>,
      \<lparr>y_label = 1, y_unique_id = Some ''b'', y_ds = 1, y_val = 7\<rparr>,
      \<lparr>y_label = 0, y_unique_id = Some ''b'', y_ds = 2, y_val = 8\<rparr>]"


text \<open>What \<^verbatim>\<open>Read and Parse data\<close> yields on the small hierarchy, for item 7.\<close>

definition demo_parsed :: parsed where
  "demo_parsed =
     \<lparr>p_Y_test_df =
        [\<lparr>i_unique_id = Some ''total'', i_ds = 2, i_val = 801 / 100\<rparr>,
         \<lparr>i_unique_id = Some ''a'', i_ds = 2, i_val = 503 / 100\<rparr>,
         \<lparr>i_unique_id = Some ''b'', i_ds = 2, i_val = 61 / 20\<rparr>],
      p_Y_train_df =
        [\<lparr>i_unique_id = Some ''total'', i_ds = 1, i_val = 6\<rparr>,
         \<lparr>i_unique_id = Some ''a'', i_ds = 1, i_val = 201 / 50\<rparr>,
         \<lparr>i_unique_id = Some ''b'', i_ds = 1, i_val = 51 / 25\<rparr>],
      p_S_df = demo_S_df, p_tags = demo_tags,
      p_horizon = 1, p_seasonality = 7, p_freq = ''D''\<rparr>"

text \<open>The item's table as \<^verbatim>\<open>run_baselines\<close> splits it on the small hierarchy, without
  the noise.\<close>

definition demo_table :: "y_row list" where
  "demo_table =
     [\<lparr>y_label = 4, y_unique_id = Some ''total'', y_ds = 1, y_val = 6\<rparr>,
      \<lparr>y_label = 5, y_unique_id = Some ''total'', y_ds = 2, y_val = 8\<rparr>,
      \<lparr>y_label = 2, y_unique_id = Some ''a'', y_ds = 1, y_val = 4\<rparr>,
      \<lparr>y_label = 3, y_unique_id = Some ''a'', y_ds = 2, y_val = 5\<rparr>,
      \<lparr>y_label = 0, y_unique_id = Some ''b'', y_ds = 1, y_val = 2\<rparr>,
      \<lparr>y_label = 1, y_unique_id = Some ''b'', y_ds = 2, y_val = 3\<rparr>]"

text \<open>The forecasts the small hierarchy's forecaster returns for item 7.\<close>

definition demo_Y_hat :: "csv_row list" where
  "demo_Y_hat =
     [\<lparr>c_unique_id = ''total'', c_ds = 2, c_vals = [6]\<rparr>,
      \<lparr>c_unique_id = ''a'', c_ds = 2, c_vals = [201 / 50]\<rparr>,
      \<lparr>c_unique_id = ''b'', c_ds = 2, c_vals = [51 / 25]\<rparr>]"

definition demo_Y_fitted :: "csv_row list" where
  "demo_Y_fitted =
     [\<lparr>c_unique_id = ''total'', c_ds = 1, c_vals = [6]\<rparr>,
      \<lparr>c_unique_id = ''a'', c_ds = 1, c_vals = [201 / 50]\<rparr>,
      \<lparr>c_unique_id = ''b'', c_ds = 1, c_vals = [51 / 25]\<rparr>]"

section \<open>Properties of the data flow\<close>

subsection \<open>The split\<close>

lemma groupby_tail_series:
  "filter (\<lambda>r. y_unique_id r = Some u) (groupby_tail n Y) =
   drop (length (filter (\<lambda>r. y_unique_id r = Some u) Y) - n)
     (filter (\<lambda>r. y_unique_id r = Some u) Y)"
proof (induction Y)
  case Nil
  show ?case by simp
next
  case (Cons r rs)
  show ?case
  proof (cases "y_unique_id r = Some u")
    case True
    then show ?thesis using Cons.IH
      by (auto simp: in_tail_def Suc_diff_le)
  next
    case False
    then show ?thesis using Cons.IH by simp
  qed
qed

lemma groupby_tail_not_nan: "r \<in> set (groupby_tail n Y) \<Longrightarrow> y_unique_id r \<noteq> None"
  by (induction Y) (auto simp: in_tail_def split: if_splits)

lemma groupby_tail_subset: "set (groupby_tail n Y) \<subseteq> set Y"
  by (induction Y) auto

lemma groupby_tail_filter:
  "distinct Y \<Longrightarrow> groupby_tail n Y = filter (\<lambda>r. r \<in> set (groupby_tail n Y)) Y"
proof (induction Y)
  case Nil
  show ?case by simp
next
  case (Cons r rs)
  have sub: "set (groupby_tail n rs) \<subseteq> set rs" by (rule groupby_tail_subset)
  from Cons.prems have nr: "r \<notin> set rs" and d: "distinct rs" by simp_all
  have ih: "groupby_tail n rs = filter (\<lambda>x. x \<in> set (groupby_tail n rs)) rs"
    using Cons.IH d by simp
  have eq: "filter (\<lambda>x. x = r \<or> x \<in> set (groupby_tail n rs)) rs
              = filter (\<lambda>x. x \<in> set (groupby_tail n rs)) rs"
    using nr by (intro filter_cong) auto
  show ?case
  proof (cases "in_tail n r rs")
    case True
    then show ?thesis using ih eq by simp
  next
    case False
    moreover have "r \<notin> set (groupby_tail n rs)" using sub nr by auto
    ultimately show ?thesis using ih by simp
  qed
qed

lemma df_drop_labels:
  assumes "distinct (map y_label Y)" and "set T \<subseteq> set Y"
  shows "df_drop (map y_label T) Y = filter (\<lambda>r. r \<notin> set T) Y"
proof -
  have inj: "inj_on y_label (set Y)" using assms(1) by (simp add: distinct_map)
  have "\<And>r. r \<in> set Y \<Longrightarrow> (y_label r \<in> y_label ` set T) = (r \<in> set T)"
    using inj assms(2) by (auto dest: inj_onD)
  then show ?thesis unfolding df_drop_def by (intro filter_cong) auto
qed

subsection \<open>Files and paths\<close>

lemma load_item_data_world:
  "load_item_data E item_id dataset directory w = (r, w1, evs) \<Longrightarrow>
     files w1 = files w \<and> dirs w1 = dirs w"
  by (auto simp: load_item_data_def random_normal_def Let_def
           split: option.splits sum.splits prod.splits)

lemma load_item_data_events:
  "load_item_data E item_id dataset directory w = (r, w1, evs) \<Longrightarrow>
     set evs \<subseteq> {EvLoad directory dataset}"
  by (auto simp: load_item_data_def random_normal_def Let_def
           split: option.splits sum.splits prod.splits)

lemma read_and_parse_world:
  "read_and_parse E item_id dataset w = (r, w1, evs) \<Longrightarrow>
     files w1 = files w \<and> dirs w1 = dirs w"
  unfolding read_and_parse_def
  by (auto simp: Let_def split: prod.splits sum.splits if_splits dest: load_item_data_world)

lemma read_and_parse_events:
  "read_and_parse E item_id dataset w = (r, w1, evs) \<Longrightarrow>
     set evs \<subseteq> {EvLoad ''./data/favorita'' dataset}"
  unfolding read_and_parse_def
  by (auto simp: Let_def split: prod.splits sum.splits if_splits dest!: load_item_data_events)

lemma yrec_neq_yhat: "yrec_file dataset item_id im \<noteq> yhat_file dataset item_id"
proof
  assume "yrec_file dataset item_id im = yhat_file dataset item_id"
  then have "im @ ''_rec.csv'' = ''Y_hat.csv''"
    by (simp add: yrec_file_def yhat_file_def)
  then have "rev (im @ ''_rec.csv'') = rev ''Y_hat.csv''" by simp
  then show False by simp
qed

lemma yrec_neq_yfitted: "yrec_file dataset item_id im \<noteq> yfitted_file dataset item_id"
proof
  assume "yrec_file dataset item_id im = yfitted_file dataset item_id"
  then have "im @ ''_rec.csv'' = ''Y_fitted.csv''"
    by (simp add: yrec_file_def yfitted_file_def)
  then have "rev (im @ ''_rec.csv'') = rev ''Y_fitted.csv''" by simp
  then show False by simp
qed

lemma path_prefixes_length: "q \<in> set (path_prefixes p) \<Longrightarrow> length q \<le> length p"
  by (auto simp: path_prefixes_def)

lemma yhat_not_prefix:
  "yhat_file dataset item_id \<notin> set (path_prefixes (item_path dataset item_id))"
  using path_prefixes_length [of "yhat_file dataset item_id" "item_path dataset item_id"]
  by (auto simp: yhat_file_def)

lemma path_prefixes_cut:
  "d \<noteq> [] \<Longrightarrow> d \<in> set (path_prefixes (d @ CHR ''/'' # rest))"
proof -
  assume d: "d \<noteq> []"
  let ?p = "d @ CHR ''/'' # rest"
  have a: "?p ! length d = CHR ''/''" by (rule nth_append_length)
  have b: "1 \<le> length d" using d by (simp add: Suc_le_eq)
  have c: "length d < length ?p" by simp
  have e: "take (length d) ?p = d" by simp
  have "length d \<in> set (filter (\<lambda>i. ?p ! i = CHR ''/'') [1..<length ?p])"
    using a b c by (simp only: set_filter set_upt atLeastLessThan_iff mem_Collect_eq)
  then have "take (length d) ?p
      \<in> set (map (\<lambda>i. take i ?p) (filter (\<lambda>i. ?p ! i = CHR ''/'') [1..<length ?p]))"
    by (simp only: set_map) (rule imageI)
  then show ?thesis unfolding path_prefixes_def e by (simp only: list.set) blast
qed

lemma dataset_dir_prefix:
  "''./data/'' @ dataset \<in> set (path_prefixes (item_path dataset item_id))"
proof -
  have "item_path dataset item_id = (''./data/'' @ dataset) @ CHR ''/'' # str_int item_id"
    by (simp add: item_path_def)
  moreover have "''./data/'' @ dataset \<noteq> []" by simp
  ultimately show ?thesis using path_prefixes_cut by metis
qed

subsection \<open>The block \<^verbatim>\<open>Fit/Predict Model\<close>\<close>

lemma makedirs_world:
  "makedirs p w = Inr w1 \<Longrightarrow>
     files w1 = files w \<and> dirs w1 = dirs w \<union> set (path_prefixes p) \<and> rng_pos w1 = rng_pos w"
  by (auto simp: makedirs_def split: if_splits)

lemma yhat_exists_after_makedirs:
  "makedirs (item_path dataset item_id) w = Inr w1 \<Longrightarrow>
     os_path_exists (yhat_file dataset item_id) w1 = os_path_exists (yhat_file dataset item_id) w"
  using yhat_not_prefix [of dataset item_id]
  by (auto simp: os_path_exists_def dest!: makedirs_world)

lemma dataset_dir_exists:
  "makedirs (item_path dataset item_id) w = Inr w1 \<Longrightarrow> os_path_exists (''./data/'' @ dataset) w1"
  using dataset_dir_prefix [of dataset item_id]
  by (auto simp: os_path_exists_def dest!: makedirs_world)

lemma fit_predict_fail:
  "makedirs (item_path dataset item_id) w = Inl e \<Longrightarrow>
     fit_predict E dataset item_id P w = (Inl e, w, [])"
  by (simp add: fit_predict_def)

lemma fit_predict_cached:
  assumes "makedirs (item_path dataset item_id) w = Inr w1"
      and "os_path_exists (yhat_file dataset item_id) w"
  shows "fit_predict E dataset item_id P w =
     (case files w (yhat_file dataset item_id) of
        None \<Rightarrow> (Inl (FileNotFoundError (yhat_file dataset item_id)), w1,
                  [EvReadCsv (yhat_file dataset item_id)])
      | Some Y_hat_df \<Rightarrow>
        (case files w (yfitted_file dataset item_id) of
           None \<Rightarrow> (Inl (FileNotFoundError (yfitted_file dataset item_id)), w1,
                     [EvReadCsv (yhat_file dataset item_id),
                      EvReadCsv (yfitted_file dataset item_id)])
         | Some Y_fitted_df \<Rightarrow>
             (Inr (Y_hat_df, Y_fitted_df), w1,
              [EvReadCsv (yhat_file dataset item_id),
               EvReadCsv (yfitted_file dataset item_id)])))"
proof -
  have ex: "os_path_exists (yhat_file dataset item_id) w1"
    using assms yhat_exists_after_makedirs by simp
  have f: "files w1 = files w" using assms(1) makedirs_world by blast
  show ?thesis using assms(1) ex f
    by (simp add: fit_predict_def read_csv_def split: option.splits)
qed

lemma fit_predict_fresh:
  assumes "makedirs (item_path dataset item_id) w = Inr w1"
      and "\<not> os_path_exists (yhat_file dataset item_id) w"
  shows "fit_predict E dataset item_id P w =
     (case StatsForecast_forecast E (forecast_args P) of
        Inl e \<Rightarrow> (Inl e, w1, [EvForecast (forecast_args P)])
      | Inr (Y_hat_df, Y_fitted_df) \<Rightarrow>
          (Inr (Y_hat_df, Y_fitted_df),
           to_csv (yfitted_file dataset item_id) Y_fitted_df
             (to_csv (yhat_file dataset item_id) Y_hat_df w1),
           [EvForecast (forecast_args P),
            EvWriteCsv (yhat_file dataset item_id),
            EvWriteCsv (yfitted_file dataset item_id)]))"
proof -
  have ex: "\<not> os_path_exists (yhat_file dataset item_id) w1"
    using assms yhat_exists_after_makedirs by simp
  have d: "os_path_exists (''./data/'' @ dataset) w1"
    using assms(1) by (rule dataset_dir_exists)
  show ?thesis using assms(1) ex d
    by (simp add: fit_predict_def split: sum.splits prod.splits)
qed


lemma reconcile_predictions_events:
  "reconcile_predictions E im dataset item_id P Yp w = (r, w', evs) \<Longrightarrow>
     EvReconcile (reconcile_args E im P Yp) \<in> set evs \<and>
     set evs \<subseteq> {EvReconcile (reconcile_args E im P Yp), EvWriteCsv (yrec_file dataset item_id im)}"
  by (auto simp: reconcile_predictions_def Let_def split: sum.splits if_splits)

lemma run_baselines_stages:
  assumes "run_baselines E im item_id dataset w = (r, w', evs)"
      and "read_and_parse E item_id dataset w = (Inr P, w1, ev1)"
  obtains (fit_failed) e w2 ev2 where
      "fit_predict E dataset item_id P w1 = (Inl e, w2, ev2)"
      "r = Inl e" "w' = w2" "evs = ev1 @ ev2"
  | (reconciled) Yp w2 ev2 ev3 where
      "fit_predict E dataset item_id P w1 = (Inr Yp, w2, ev2)"
      "reconcile_predictions E im dataset item_id P Yp w2 = (r, w', ev3)"
      "evs = ev1 @ ev2 @ ev3"
  using assms
  by (auto simp: run_baselines_def split: prod.splits sum.splits)

subsection \<open>The forecast cache\<close>

text \<open>
  Claim C2. In a run of \<^verbatim>\<open>run_baselines\<close> that reaches the block
  \<^verbatim>\<open>Fit/Predict Model\<close> (the data was read and split, the item's directory could be
  made), StatsForecast is called if and only if \<^verbatim>\<open>./data/{dataset}/{item_id}/Y_hat.csv\<close>
  does not exist when the run starts. When it exists, \<^verbatim>\<open>Y_hat.csv\<close> is read, and the base
  forecasts and fitted values handed to the reconciliation are the contents of
  \<^verbatim>\<open>Y_hat.csv\<close> and \<^verbatim>\<open>Y_fitted.csv\<close>; with either file unreadable the run stops
  at the read, before any reconciliation.
\<close>

theorem fitting_iff_no_cache:
  assumes rp: "read_and_parse E item_id dataset w = (Inr P, w1, ev1)"
      and mk: "makedirs (item_path dataset item_id) w1 = Inr w2"
      and run: "run_baselines E intervals_method item_id dataset w = (r, w', evs)"
  shows "((\<exists>a. EvForecast a \<in> set evs) \<longleftrightarrow> \<not> os_path_exists (yhat_file dataset item_id) w) \<and>
         (os_path_exists (yhat_file dataset item_id) w \<longrightarrow>
            EvReadCsv (yhat_file dataset item_id) \<in> set evs \<and>
            (\<forall>a. EvReconcile a \<in> set evs \<longrightarrow>
               files w (yhat_file dataset item_id) = Some (ra_Y_hat_df a) \<and>
               files w (yfitted_file dataset item_id) = Some (ra_Y_df a)))"
proof -
  have same: "files w1 = files w" "dirs w1 = dirs w"
    using rp read_and_parse_world by blast+
  then have ex: "os_path_exists (yhat_file dataset item_id) w1
                   = os_path_exists (yhat_file dataset item_id) w"
    by (simp add: os_path_exists_def)
  have ev1: "set ev1 \<subseteq> {EvLoad ''./data/favorita'' dataset}"
    using rp by (rule read_and_parse_events)
  show ?thesis
  proof (cases "os_path_exists (yhat_file dataset item_id) w")
    case True
    then have fp: "fit_predict E dataset item_id P w1 =
       (case files w (yhat_file dataset item_id) of
          None \<Rightarrow> (Inl (FileNotFoundError (yhat_file dataset item_id)), w2,
                    [EvReadCsv (yhat_file dataset item_id)])
        | Some Y_hat_df \<Rightarrow>
          (case files w (yfitted_file dataset item_id) of
             None \<Rightarrow> (Inl (FileNotFoundError (yfitted_file dataset item_id)), w2,
                       [EvReadCsv (yhat_file dataset item_id),
                        EvReadCsv (yfitted_file dataset item_id)])
           | Some Y_fitted_df \<Rightarrow>
               (Inr (Y_hat_df, Y_fitted_df), w2,
                [EvReadCsv (yhat_file dataset item_id),
                 EvReadCsv (yfitted_file dataset item_id)])))"
      using fit_predict_cached [OF mk] ex same by (simp cong: option.case_cong)
    from run rp show ?thesis
    proof (cases rule: run_baselines_stages)
      case (fit_failed e w3 ev2)
      then show ?thesis using fp True ev1
        by (auto split: option.splits)
    next
      case (reconciled Yp w3 ev2 ev3)
      from reconciled(2) have ev3:
        "set ev3 \<subseteq> {EvReconcile (reconcile_args E intervals_method P Yp),
                     EvWriteCsv (yrec_file dataset item_id intervals_method)}"
        using reconcile_predictions_events by blast
      from reconciled(1) fp have
        "files w (yhat_file dataset item_id) = Some (fst Yp)"
        "files w (yfitted_file dataset item_id) = Some (snd Yp)"
        "ev2 = [EvReadCsv (yhat_file dataset item_id), EvReadCsv (yfitted_file dataset item_id)]"
        by (auto split: option.splits)
      then show ?thesis using True ev1 ev3 reconciled(3)
        by (auto simp: reconcile_args_def)
    qed
  next
    case False
    then have fp: "fit_predict E dataset item_id P w1 =
       (case StatsForecast_forecast E (forecast_args P) of
          Inl e \<Rightarrow> (Inl e, w2, [EvForecast (forecast_args P)])
        | Inr (Y_hat_df, Y_fitted_df) \<Rightarrow>
            (Inr (Y_hat_df, Y_fitted_df),
             to_csv (yfitted_file dataset item_id) Y_fitted_df
               (to_csv (yhat_file dataset item_id) Y_hat_df w2),
             [EvForecast (forecast_args P),
              EvWriteCsv (yhat_file dataset item_id),
              EvWriteCsv (yfitted_file dataset item_id)]))"
      using fit_predict_fresh [OF mk] ex by simp
    from run rp show ?thesis
    proof (cases rule: run_baselines_stages)
      case (fit_failed e w3 ev2)
      then show ?thesis using fp False
        by (auto split: sum.splits prod.splits)
    next
      case (reconciled Yp w3 ev2 ev3)
      then show ?thesis using fp False
        by (auto split: sum.splits prod.splits)
    qed
  qed
qed


lemma makedirs_ok_iff:
  "(\<exists>w2. makedirs p w = Inr w2) \<longleftrightarrow> \<not> list_ex (\<lambda>q. files w q \<noteq> None) (path_prefixes p)"
  by (simp add: makedirs_def)

lemma demo_parse_cached:
  "fst (read_and_parse demo_env 7 ''Favorita200'' cached_world) = Inr demo_parsed"
  by code_simp

lemma demo_parse_empty:
  "fst (read_and_parse demo_env 7 ''Favorita200'' empty_world) = Inr demo_parsed"
  by code_simp

lemma demo_makedirs_cached:
  "\<not> list_ex (\<lambda>q. files cached_world q \<noteq> None) (path_prefixes (item_path ''Favorita200'' 7))"
  by code_simp

lemma demo_makedirs_empty:
  "\<not> list_ex (\<lambda>q. files empty_world q \<noteq> None) (path_prefixes (item_path ''Favorita200'' 7))"
  by code_simp

text \<open>Item 7 of the small hierarchy, once with both cache files on disk and once with
  none.\<close>

theorem fitting_iff_no_cache_witness:
  "fst (read_and_parse demo_env 7 ''Favorita200'' cached_world) = Inr demo_parsed \<and>
   os_path_exists (yhat_file ''Favorita200'' 7) cached_world \<and>
   \<not> (\<exists>a. EvForecast a \<in> set (snd (snd (run_baselines demo_env ''normality'' 7 ''Favorita200'' cached_world)))) \<and>
   EvReadCsv (yhat_file ''Favorita200'' 7)
     \<in> set (snd (snd (run_baselines demo_env ''normality'' 7 ''Favorita200'' cached_world))) \<and>
   fst (read_and_parse demo_env 7 ''Favorita200'' empty_world) = Inr demo_parsed \<and>
   \<not> os_path_exists (yhat_file ''Favorita200'' 7) empty_world \<and>
   (\<exists>a. EvForecast a \<in> set (snd (snd (run_baselines demo_env ''normality'' 7 ''Favorita200'' empty_world))))"
proof -
  have exc: "os_path_exists (yhat_file ''Favorita200'' 7) cached_world" by code_simp
  have exe: "\<not> os_path_exists (yhat_file ''Favorita200'' 7) empty_world" by code_simp
  obtain w1 ev1 where rp: "read_and_parse demo_env 7 ''Favorita200'' cached_world = (Inr demo_parsed, w1, ev1)"
    using demo_parse_cached by (cases "read_and_parse demo_env 7 ''Favorita200'' cached_world") auto
  have "files w1 = files cached_world" using rp read_and_parse_world by blast
  then obtain w2 where mk: "makedirs (item_path ''Favorita200'' 7) w1 = Inr w2"
    using demo_makedirs_cached makedirs_ok_iff [of "item_path ''Favorita200'' 7" w1] by auto
  obtain r w' evs where run: "run_baselines demo_env ''normality'' 7 ''Favorita200'' cached_world = (r, w', evs)"
    by (cases "run_baselines demo_env ''normality'' 7 ''Favorita200'' cached_world") auto
  obtain v1 e1 where rp': "read_and_parse demo_env 7 ''Favorita200'' empty_world = (Inr demo_parsed, v1, e1)"
    using demo_parse_empty by (cases "read_and_parse demo_env 7 ''Favorita200'' empty_world") auto
  have "files v1 = files empty_world" using rp' read_and_parse_world by blast
  then obtain v2 where mk': "makedirs (item_path ''Favorita200'' 7) v1 = Inr v2"
    using demo_makedirs_empty makedirs_ok_iff [of "item_path ''Favorita200'' 7" v1] by auto
  obtain r' v' evs' where run': "run_baselines demo_env ''normality'' 7 ''Favorita200'' empty_world = (r', v', evs')"
    by (cases "run_baselines demo_env ''normality'' 7 ''Favorita200'' empty_world") auto
  show ?thesis
    using fitting_iff_no_cache [OF rp mk run] fitting_iff_no_cache [OF rp' mk' run']
      exc exe demo_parse_cached demo_parse_empty run run'
    by simp
qed

subsection \<open>The train/test split\<close>

lemma series_dates_sorted:
  assumes "sorted (map (\<lambda>r. (cat_code cats (y_unique_id r), y_ds r)) Y)"
  shows "sorted (map y_ds (filter (\<lambda>r. y_unique_id r = Some u) Y))"
proof -
  let ?g = "filter (\<lambda>r. y_unique_id r = Some u) Y"
  have "sorted (map (\<lambda>r. (cat_code cats (y_unique_id r), y_ds r)) ?g)"
    using assms by (rule sorted_filter)
  then have "sorted_wrt (\<lambda>a b. (cat_code cats (y_unique_id a), y_ds a)
                               \<le> (cat_code cats (y_unique_id b), y_ds b)) ?g"
    by (simp add: sorted_map)
  then have "sorted_wrt (\<lambda>a b. y_ds a \<le> y_ds b) ?g"
    by (rule sorted_wrt_mono_rel [rotated]) auto
  then show ?thesis by (simp add: sorted_map)
qed

text \<open>
  Claim C1, as the code has it. For each series id, the test frame holds the last \<open>horizon\<close>
  rows of that series in table order (all its rows when it has fewer). The table being
  sorted by series and date, a train row is never later than a test row of its series. \<^verbatim>\<open>drop\<close> removes rows
  by index label: when the labels of the table are unique, the train frame is exactly the
  rows that are not in the test frame, the two frames are disjoint and together they are the
  table. The two \<^verbatim>\<open>set_index\<close> calls that follow only replace the labels by the ids.
\<close>

theorem split_tail_and_rest:
  "filter (\<lambda>r. y_unique_id r = Some u) (fst (train_test_split horizon Y_df)) =
     drop (length (filter (\<lambda>r. y_unique_id r = Some u) Y_df) - horizon)
       (filter (\<lambda>r. y_unique_id r = Some u) Y_df) \<and>
   (sorted (map (\<lambda>r. (cat_code cats (y_unique_id r), y_ds r)) Y_df) \<longrightarrow>
      (\<forall>a \<in> set (snd (train_test_split horizon Y_df)).
       \<forall>b \<in> set (fst (train_test_split horizon Y_df)).
          y_unique_id a = y_unique_id b \<longrightarrow> y_ds a \<le> y_ds b)) \<and>
   (distinct (map y_label Y_df) \<longrightarrow>
      snd (train_test_split horizon Y_df) =
        filter (\<lambda>r. r \<notin> set (fst (train_test_split horizon Y_df))) Y_df \<and>
      set (fst (train_test_split horizon Y_df)) \<inter> set (snd (train_test_split horizon Y_df)) = {} \<and>
      mset (fst (train_test_split horizon Y_df)) + mset (snd (train_test_split horizon Y_df))
        = mset Y_df)"
proof -
  let ?test = "groupby_tail horizon Y_df"
  let ?train = "df_drop (map y_label ?test) Y_df"
  have split: "fst (train_test_split horizon Y_df) = ?test"
              "snd (train_test_split horizon Y_df) = ?train"
    by (simp_all add: train_test_split_def Let_def)
  have c1: "filter (\<lambda>r. y_unique_id r = Some u) ?test =
     drop (length (filter (\<lambda>r. y_unique_id r = Some u) Y_df) - horizon)
       (filter (\<lambda>r. y_unique_id r = Some u) Y_df)"
    by (rule groupby_tail_series)
  have c3: "y_ds a \<le> y_ds b"
    if srt: "sorted (map (\<lambda>r. (cat_code cats (y_unique_id r), y_ds r)) Y_df)"
      and a: "a \<in> set ?train" and b: "b \<in> set ?test" and ab: "y_unique_id a = y_unique_id b"
    for a b
  proof -
    from b obtain v where v: "y_unique_id b = Some v"
      using groupby_tail_not_nan by fastforce
    let ?g = "filter (\<lambda>r. y_unique_id r = Some v) Y_df"
    let ?k = "length ?g - horizon"
    have tv: "filter (\<lambda>r. y_unique_id r = Some v) ?test = drop ?k ?g"
      by (rule groupby_tail_series)
    have bg: "b \<in> set (drop ?k ?g)" using b v tv [symmetric] by simp
    have "a \<in> set ?g" using a ab v by (auto simp: df_drop_def)
    moreover have "a \<notin> set (drop ?k ?g)"
    proof
      assume "a \<in> set (drop ?k ?g)"
      then have "a \<in> set (filter (\<lambda>r. y_unique_id r = Some v) ?test)" using tv by simp
      then have "a \<in> set ?test" by simp
      then show False using a by (auto simp: df_drop_def)
    qed
    ultimately have ag: "a \<in> set (take ?k ?g)"
      by (metis Un_iff append_take_drop_id set_append)
    have "sorted (map y_ds (take ?k ?g @ drop ?k ?g))"
      using series_dates_sorted [OF srt] by simp
    then have "\<forall>x \<in> set (map y_ds (take ?k ?g)). \<forall>y \<in> set (map y_ds (drop ?k ?g)). x \<le> y"
      unfolding map_append sorted_append by blast
    then show ?thesis using ag bg by auto
  qed
  have c4: "?train = filter (\<lambda>r. r \<notin> set ?test) Y_df \<and>
            set ?test \<inter> set ?train = {} \<and> mset ?test + mset ?train = mset Y_df"
    if d: "distinct (map y_label Y_df)"
  proof -
    have dY: "distinct Y_df" using d by (simp add: distinct_map)
    have tr: "?train = filter (\<lambda>r. r \<notin> set ?test) Y_df"
      using d groupby_tail_subset by (rule df_drop_labels)
    have te: "?test = filter (\<lambda>r. r \<in> set ?test) Y_df"
      using dY by (rule groupby_tail_filter)
    have "mset (filter (\<lambda>r. r \<in> set ?test) Y_df) + mset (filter (\<lambda>r. r \<notin> set ?test) Y_df)
            = mset Y_df"
      by simp
    then have "mset ?test + mset ?train = mset Y_df" using tr te by simp
    moreover have "set ?test \<inter> set ?train = {}" using tr by auto
    ultimately show ?thesis using tr by simp
  qed
  show ?thesis unfolding split using c1 c3 c4 by blast
qed

text \<open>With a label that occurs twice, a row that shares its label with a test row of
  another series is dropped from the train frame too: it is in neither frame.\<close>

theorem split_loses_rows_counterexample:
  "fst (train_test_split 1 dup_table) =
     [\<lparr>y_label = 1, y_unique_id = Some ''a'', y_ds = 2, y_val = 6\<rparr>,
      \<lparr>y_label = 0, y_unique_id = Some ''b'', y_ds = 2, y_val = 8\<rparr>] \<and>
   snd (train_test_split 1 dup_table) = [] \<and>
   \<lparr>y_label = 0, y_unique_id = Some ''a'', y_ds = 1, y_val = 5\<rparr> \<in> set dup_table \<and>
   \<lparr>y_label = 0, y_unique_id = Some ''a'', y_ds = 1, y_val = 5\<rparr>
      \<notin> set (fst (train_test_split 1 dup_table)) \<union> set (snd (train_test_split 1 dup_table)) \<and>
   mset (fst (train_test_split 1 dup_table)) + mset (snd (train_test_split 1 dup_table))
      \<noteq> mset dup_table"
proof -
  have s: "train_test_split 1 dup_table =
     ([\<lparr>y_label = 1, y_unique_id = Some ''a'', y_ds = 2, y_val = 6\<rparr>,
       \<lparr>y_label = 0, y_unique_id = Some ''b'', y_ds = 2, y_val = 8\<rparr>], [])"
    by (simp add: train_test_split_def dup_table_def in_tail_def df_drop_def Let_def)
  have "size (mset (fst (train_test_split 1 dup_table))
          + mset (snd (train_test_split 1 dup_table))) \<noteq> size (mset dup_table)"
    unfolding s by (simp add: dup_table_def)
  then have "mset (fst (train_test_split 1 dup_table)) + mset (snd (train_test_split 1 dup_table))
      \<noteq> mset dup_table" by metis
  then show ?thesis unfolding s by (simp add: dup_table_def)
qed

theorem split_tail_and_rest_witness:
  "sorted (map (\<lambda>r. (cat_code [''total'', ''a'', ''b''] (y_unique_id r), y_ds r)) demo_table) \<and>
   distinct (map y_label demo_table) \<and>
   filter (\<lambda>r. y_unique_id r = Some ''a'') (fst (train_test_split 1 demo_table)) =
     [\<lparr>y_label = 3, y_unique_id = Some ''a'', y_ds = 2, y_val = 5\<rparr>] \<and>
   snd (train_test_split 1 demo_table) =
     filter (\<lambda>r. r \<notin> set (fst (train_test_split 1 demo_table))) demo_table \<and>
   set (fst (train_test_split 1 demo_table)) \<inter> set (snd (train_test_split 1 demo_table)) = {} \<and>
   mset (fst (train_test_split 1 demo_table)) + mset (snd (train_test_split 1 demo_table))
     = mset demo_table"
proof -
  have a: "sorted (map (\<lambda>r. (cat_code [''total'', ''a'', ''b''] (y_unique_id r), y_ds r)) demo_table)"
    by (simp add: demo_table_def cat_code_def)
  have b: "distinct (map y_label demo_table)"
    by (simp add: demo_table_def)
  have c: "drop (length (filter (\<lambda>r. y_unique_id r = Some ''a'') demo_table) - 1)
       (filter (\<lambda>r. y_unique_id r = Some ''a'') demo_table) =
       [\<lparr>y_label = 3, y_unique_id = Some ''a'', y_ds = 2, y_val = 5\<rparr>]"
    by (simp add: demo_table_def)
  note t = split_tail_and_rest [of "''a''" 1 demo_table "[''total'', ''a'', ''b'']"]
  from t have t1: "filter (\<lambda>r. y_unique_id r = Some ''a'') (fst (train_test_split 1 demo_table)) =
     drop (length (filter (\<lambda>r. y_unique_id r = Some ''a'') demo_table) - 1)
       (filter (\<lambda>r. y_unique_id r = Some ''a'') demo_table)"
    by (rule conjunct1)
  from t b have t4: "snd (train_test_split 1 demo_table) =
     filter (\<lambda>r. r \<notin> set (fst (train_test_split 1 demo_table))) demo_table \<and>
   set (fst (train_test_split 1 demo_table)) \<inter> set (snd (train_test_split 1 demo_table)) = {} \<and>
   mset (fst (train_test_split 1 demo_table)) + mset (snd (train_test_split 1 demo_table))
     = mset demo_table"
    by blast
  show ?thesis using a b t1 [unfolded c] t4 by blast
qed

subsection \<open>The stages of a run\<close>

lemma fit_predict_events:
  "fit_predict E dataset item_id P w = (r, w', evs) \<Longrightarrow>
     set evs \<subseteq> {EvReadCsv (yhat_file dataset item_id), EvReadCsv (yfitted_file dataset item_id),
                  EvForecast (forecast_args P),
                  EvWriteCsv (yhat_file dataset item_id), EvWriteCsv (yfitted_file dataset item_id)}"
  by (auto simp: fit_predict_def split: sum.splits prod.splits if_splits)

lemma fit_predict_cached_frame:
  assumes ex: "os_path_exists (yhat_file dataset item_id) w"
      and fp: "fit_predict E dataset item_id P w = (r, w', evs)"
  shows "files w' = files w \<and>
         set evs \<subseteq> {EvReadCsv (yhat_file dataset item_id), EvReadCsv (yfitted_file dataset item_id)} \<and>
         (\<forall>Yp. r = Inr Yp \<longrightarrow>
            files w (yhat_file dataset item_id) = Some (fst Yp) \<and>
            files w (yfitted_file dataset item_id) = Some (snd Yp))"
proof (cases "makedirs (item_path dataset item_id) w")
  case (Inl e)
  then show ?thesis using fp by (auto simp: fit_predict_fail)
next
  case (Inr w1)
  have f: "files w1 = files w" using Inr makedirs_world by blast
  show ?thesis using fp f unfolding fit_predict_cached [OF Inr ex]
    by (auto split: option.splits)
qed

lemma reconcile_predictions_result:
  assumes "reconcile_predictions E im dataset item_id P Yp w = (Inr (Y_rec, Y_test, Y_train), w', evs)"
  shows "\<exists>B. bootstrap_reconcile E (reconcile_args E im P Yp) = Inr B \<and>
           distinct (s_index (p_S_df P)) \<and>
           Y_rec = align_rec (s_index (p_S_df P)) B \<and>
           Y_test = align_test (s_index (p_S_df P)) (p_Y_test_df P) \<and>
           Y_train = p_Y_train_df P \<and>
           w' = to_csv (yrec_file dataset item_id im) (map rec_to_csv Y_rec) w \<and>
           evs = [EvReconcile (reconcile_args E im P Yp), EvWriteCsv (yrec_file dataset item_id im)]"
  using assms
  by (auto simp: reconcile_predictions_def Let_def split: sum.splits if_splits)

lemma reconcile_predictions_files:
  assumes "reconcile_predictions E im dataset item_id P Yp w = (r, w', evs)"
      and "p \<noteq> yrec_file dataset item_id im"
  shows "files w' p = files w p"
  using assms
  by (auto simp: reconcile_predictions_def to_csv_def Let_def split: sum.splits if_splits)

lemma run_baselines_failed_parse:
  "read_and_parse E item_id dataset w = (Inl e, w1, ev1) \<Longrightarrow>
     run_baselines E im item_id dataset w = (Inl e, w1, ev1)"
  by (simp add: run_baselines_def)

lemma run_baselines_result:
  assumes "run_baselines E im item_id dataset w = (Inr res, w', evs)"
  obtains P w1 ev1 Yp w2 ev2 ev3 where
    "read_and_parse E item_id dataset w = (Inr P, w1, ev1)"
    "fit_predict E dataset item_id P w1 = (Inr Yp, w2, ev2)"
    "reconcile_predictions E im dataset item_id P Yp w2 = (Inr res, w', ev3)"
    "evs = ev1 @ ev2 @ ev3"
  using assms
  by (auto simp: run_baselines_def split: prod.splits sum.splits)

lemma run_baselines_reconcile_event:
  assumes run: "run_baselines E im item_id dataset w = (r, w', evs)"
      and ev: "EvReconcile a \<in> set evs"
  obtains P w1 ev1 Yp w2 ev2 where
    "read_and_parse E item_id dataset w = (Inr P, w1, ev1)"
    "fit_predict E dataset item_id P w1 = (Inr Yp, w2, ev2)"
    "a = reconcile_args E im P Yp"
proof (cases "read_and_parse E item_id dataset w")
  case (fields r1 w1 ev1)
  have e1: "set ev1 \<subseteq> {EvLoad ''./data/favorita'' dataset}"
    using fields by (rule read_and_parse_events)
  show ?thesis
  proof (cases r1)
    case (Inl e)
    then show ?thesis using run ev e1 fields by (auto simp: run_baselines_failed_parse)
  next
    case (Inr P)
    from run fields [unfolded Inr] show ?thesis
    proof (cases rule: run_baselines_stages)
      case (fit_failed e w2 ev2)
      then show ?thesis using ev e1 fit_predict_events [OF fit_failed(1)] by auto
    next
      case (reconciled Yp w2 ev2 ev3)
      have "a = reconcile_args E im P Yp"
        using ev e1 fit_predict_events [OF reconciled(1)]
          reconcile_predictions_events [OF reconciled(2)] reconciled(3) by auto
      then show ?thesis using that fields Inr reconciled(1) by blast
    qed
  qed
qed

lemma run_baselines_forecast_event:
  assumes run: "run_baselines E im item_id dataset w = (r, w', evs)"
      and ev: "EvForecast a \<in> set evs"
  obtains P w1 ev1 where
    "read_and_parse E item_id dataset w = (Inr P, w1, ev1)"
    "a = forecast_args P"
proof (cases "read_and_parse E item_id dataset w")
  case (fields r1 w1 ev1)
  have e1: "set ev1 \<subseteq> {EvLoad ''./data/favorita'' dataset}"
    using fields by (rule read_and_parse_events)
  show ?thesis
  proof (cases r1)
    case (Inl e)
    then show ?thesis using run ev e1 fields by (auto simp: run_baselines_failed_parse)
  next
    case (Inr P)
    from run fields [unfolded Inr] show ?thesis
    proof (cases rule: run_baselines_stages)
      case (fit_failed e w2 ev2)
      have "a = forecast_args P"
        using ev e1 fit_predict_events [OF fit_failed(1)] fit_failed(4) by auto
      then show ?thesis using that fields Inr by blast
    next
      case (reconciled Yp w2 ev2 ev3)
      have "a = forecast_args P"
        using ev e1 fit_predict_events [OF reconciled(1)]
          reconcile_predictions_events [OF reconciled(2)] reconciled(3) by auto
      then show ?thesis using that fields Inr by blast
    qed
  qed
qed

lemma read_and_parse_result:
  assumes "read_and_parse E item_id dataset w = (Inr P, w1, ev1)"
  obtains info Y_all S tags stored where
    "FavoritaInfo E dataset = Some info"
    "FavoritaData_load E ''./data/favorita'' dataset = Inr (Y_all, S, tags)"
    "sort_hier_df (filter (\<lambda>r. r_item_id r = item_id) Y_all) S = Inr stored"
    "p_S_df P = S" "p_tags P = tags" "p_horizon P = i_horizon info"
    "p_seasonality P = i_seasonality info" "p_freq P = i_freq info"
    "p_Y_test_df P = map set_index (fst (train_test_split (i_horizon info)
        (map select_columns
          (add_noise stored (fst (random_normal E 0 (1 / 100) (length stored) w))))))"
    "p_Y_train_df P = map set_index (snd (train_test_split (i_horizon info)
        (map select_columns
          (add_noise stored (fst (random_normal E 0 (1 / 100) (length stored) w))))))"
  using assms
  by (auto simp: read_and_parse_def load_item_data_def Let_def
           split: option.splits sum.splits prod.splits if_splits)

lemma demo_run_events:
  "snd (snd (run_baselines demo_env ''bootstrap'' 7 ''Favorita200'' empty_world)) =
     [EvLoad ''./data/favorita'' ''Favorita200'',
      EvForecast (forecast_args demo_parsed),
      EvWriteCsv ''./data/Favorita200/7/Y_hat.csv'',
      EvWriteCsv ''./data/Favorita200/7/Y_fitted.csv'',
      EvReconcile (reconcile_args demo_env ''bootstrap'' demo_parsed (demo_Y_hat, demo_Y_fitted)),
      EvWriteCsv ''./data/Favorita200/7/bootstrap_rec.csv'']"
  by code_simp


subsection \<open>The reconciliation methods\<close>

text \<open>
  Claim C3. The reconcilers of a run depend only on whether \<^verbatim>\<open>is_strictly_hierarchical\<close>
  holds of the summation matrix and the tags of the loaded data: if so they are BottomUp,
  TopDown(average_proportions), TopDown(proportion_averages), MinTrace(ols),
  MinTrace(mint_shrink) and ERM(closed), if not the same list without the two TopDown
  variants. Every run that returns has made this call.
\<close>

theorem reconcilers_by_strictness:
  assumes run: "run_baselines E intervals_method item_id dataset w = (r, w', evs)"
  shows "(\<forall>a. EvReconcile a \<in> set evs \<longrightarrow>
            (\<exists>Y_all. FavoritaData_load E ''./data/favorita'' dataset
                        = Inr (Y_all, ra_S_df a, ra_tags a)) \<and>
            ra_reconcilers a =
              (if is_strictly_hierarchical E (s_values (ra_S_df a))
                    (map (\<lambda>(key, val). (key, get_indexer (s_index (ra_S_df a)) val)) (ra_tags a))
               then [BottomUp, TopDown ''average_proportions'', TopDown ''proportion_averages'',
                     MinTrace ''ols'' None, MinTrace ''mint_shrink'' (Some (1 / 1000000)),
                     ERM ''closed'']
               else [BottomUp, MinTrace ''ols'' None,
                     MinTrace ''mint_shrink'' (Some (1 / 1000000)), ERM ''closed''])) \<and>
         (\<forall>res. r = Inr res \<longrightarrow> (\<exists>a. EvReconcile a \<in> set evs)) \<and>
         loose_reconcilers =
           filter (\<lambda>m. case m of TopDown s \<Rightarrow> False | _ \<Rightarrow> True) strict_reconcilers"
proof -
  have a: "(\<exists>Y_all. FavoritaData_load E ''./data/favorita'' dataset
                        = Inr (Y_all, ra_S_df a, ra_tags a)) \<and>
            ra_reconcilers a =
              (if is_strictly_hierarchical E (s_values (ra_S_df a))
                    (map (\<lambda>(key, val). (key, get_indexer (s_index (ra_S_df a)) val)) (ra_tags a))
               then [BottomUp, TopDown ''average_proportions'', TopDown ''proportion_averages'',
                     MinTrace ''ols'' None, MinTrace ''mint_shrink'' (Some (1 / 1000000)),
                     ERM ''closed'']
               else [BottomUp, MinTrace ''ols'' None,
                     MinTrace ''mint_shrink'' (Some (1 / 1000000)), ERM ''closed''])"
    if "EvReconcile a \<in> set evs" for a
    using run that
  proof (cases rule: run_baselines_reconcile_event)
    case (1 P w1 ev1 Yp w2 ev2)
    from 1(1) show ?thesis
    proof (cases rule: read_and_parse_result)
      case (1 info Y_all S tags stored)
      then show ?thesis using \<open>a = reconcile_args E intervals_method P Yp\<close>
        by (simp add: reconcile_args_def strict_reconcilers_def loose_reconcilers_def)
    qed
  qed
  have b: "\<exists>a. EvReconcile a \<in> set evs" if "r = Inr res" for res
    using run [unfolded that]
  proof (cases rule: run_baselines_result)
    case (1 P w1 ev1 Yp w2 ev2 ev3)
    then show ?thesis using reconcile_predictions_events [OF 1(3)] by auto
  qed
  have c: "loose_reconcilers =
           filter (\<lambda>m. case m of TopDown s \<Rightarrow> False | _ \<Rightarrow> True) strict_reconcilers"
    by (simp add: loose_reconcilers_def strict_reconcilers_def)
  show ?thesis using a b c by blast
qed

theorem reconcilers_by_strictness_witness:
  "EvReconcile (reconcile_args demo_env ''bootstrap'' demo_parsed (demo_Y_hat, demo_Y_fitted))
     \<in> set (snd (snd (run_baselines demo_env ''bootstrap'' 7 ''Favorita200'' empty_world))) \<and>
   is_strictly_hierarchical demo_env (s_values demo_S_df)
     (map (\<lambda>(key, val). (key, get_indexer (s_index demo_S_df) val)) demo_tags) \<and>
   ra_reconcilers (reconcile_args demo_env ''bootstrap'' demo_parsed (demo_Y_hat, demo_Y_fitted)) =
     [BottomUp, TopDown ''average_proportions'', TopDown ''proportion_averages'',
      MinTrace ''ols'' None, MinTrace ''mint_shrink'' (Some (1 / 1000000)), ERM ''closed'']"
proof -
  obtain r w' evs where
    run: "run_baselines demo_env ''bootstrap'' 7 ''Favorita200'' empty_world = (r, w', evs)"
    by (cases "run_baselines demo_env ''bootstrap'' 7 ''Favorita200'' empty_world") auto
  have evs: "evs = snd (snd (run_baselines demo_env ''bootstrap'' 7 ''Favorita200'' empty_world))"
    using run by simp
  have m: "EvReconcile (reconcile_args demo_env ''bootstrap'' demo_parsed (demo_Y_hat, demo_Y_fitted))
     \<in> set evs"
    unfolding evs demo_run_events by simp
  have s: "is_strictly_hierarchical demo_env (s_values demo_S_df)
     (map (\<lambda>(key, val). (key, get_indexer (s_index demo_S_df) val)) demo_tags)"
    by (simp add: demo_env_def)
  have d: "ra_S_df (reconcile_args demo_env ''bootstrap'' demo_parsed (demo_Y_hat, demo_Y_fitted))
             = demo_S_df"
          "ra_tags (reconcile_args demo_env ''bootstrap'' demo_parsed (demo_Y_hat, demo_Y_fitted))
             = demo_tags"
    by (simp_all add: reconcile_args_def demo_parsed_def)
  from reconcilers_by_strictness [OF run] m have
    "ra_reconcilers (reconcile_args demo_env ''bootstrap'' demo_parsed (demo_Y_hat, demo_Y_fitted)) =
       (if is_strictly_hierarchical demo_env
             (s_values (ra_S_df (reconcile_args demo_env ''bootstrap'' demo_parsed (demo_Y_hat, demo_Y_fitted))))
             (map (\<lambda>(key, val). (key, get_indexer
                (s_index (ra_S_df (reconcile_args demo_env ''bootstrap'' demo_parsed (demo_Y_hat, demo_Y_fitted)))) val))
                (ra_tags (reconcile_args demo_env ''bootstrap'' demo_parsed (demo_Y_hat, demo_Y_fitted))))
        then [BottomUp, TopDown ''average_proportions'', TopDown ''proportion_averages'',
              MinTrace ''ols'' None, MinTrace ''mint_shrink'' (Some (1 / 1000000)),
              ERM ''closed'']
        else [BottomUp, MinTrace ''ols'' None,
              MinTrace ''mint_shrink'' (Some (1 / 1000000)), ERM ''closed''])"
    by blast
  then show ?thesis using m s unfolding d evs by simp
qed

subsection \<open>What the forecaster is given\<close>

lemma filter_not_in_drop:
  "distinct xs \<Longrightarrow> filter (\<lambda>r. r \<notin> set (drop k xs)) xs = take k xs"
proof -
  assume d: "distinct xs"
  have "distinct (take k xs @ drop k xs)" using d by simp
  then have disj: "set (take k xs) \<inter> set (drop k xs) = {}"
    unfolding distinct_append by blast
  have a: "filter (\<lambda>r. r \<notin> set (drop k xs)) (take k xs) = take k xs"
    using disj by (auto simp: filter_id_conv)
  have b: "filter (\<lambda>r. r \<notin> set (drop k xs)) (drop k xs) = []"
    by (simp add: filter_empty_conv)
  have "filter (\<lambda>r. r \<notin> set (drop k xs)) (take k xs @ drop k xs) = take k xs"
    unfolding filter_append a b by simp
  then show ?thesis by simp
qed

lemma train_series:
  assumes d: "distinct (map y_label Y)"
  shows "filter (\<lambda>r. y_unique_id r = Some u) (snd (train_test_split h Y)) =
         take (length (filter (\<lambda>r. y_unique_id r = Some u) Y) - h)
           (filter (\<lambda>r. y_unique_id r = Some u) Y)"
proof -
  let ?test = "groupby_tail h Y"
  let ?g = "filter (\<lambda>r. y_unique_id r = Some u) Y"
  let ?k = "length ?g - h"
  have dY: "distinct Y" using d by (simp add: distinct_map)
  have tr: "snd (train_test_split h Y) = filter (\<lambda>r. r \<notin> set ?test) Y"
    unfolding train_test_split_def Let_def snd_conv
    using d groupby_tail_subset by (rule df_drop_labels)
  have tu: "filter (\<lambda>r. y_unique_id r = Some u) ?test = drop ?k ?g"
    by (rule groupby_tail_series)
  have mem: "(r \<in> set ?test) = (r \<in> set (drop ?k ?g))" if "r \<in> set ?g" for r
  proof -
    have "(r \<in> set ?test) = (r \<in> set (filter (\<lambda>r. y_unique_id r = Some u) ?test))"
      using that by simp
    then show ?thesis unfolding tu .
  qed
  have "filter (\<lambda>r. y_unique_id r = Some u) (filter (\<lambda>r. r \<notin> set ?test) Y)
          = filter (\<lambda>r. r \<notin> set ?test) ?g"
    by (simp add: conj_commute)
  also have "\<dots> = filter (\<lambda>r. r \<notin> set (drop ?k ?g)) ?g"
    using mem by (intro filter_cong) auto
  also have "\<dots> = take ?k ?g"
    using dY by (intro filter_not_in_drop) simp
  finally show ?thesis unfolding tr .
qed

lemma train_frame_series:
  assumes d: "distinct (map o_label D)"
  shows "filter (\<lambda>r. i_unique_id r = Some u)
           (map set_index (snd (train_test_split h (map select_columns D)))) =
         map (\<lambda>r. set_index (select_columns r))
           (take (length (filter (\<lambda>r. o_unique_id r = Some u) D) - h)
              (filter (\<lambda>r. o_unique_id r = Some u) D))"
proof -
  have dl: "distinct (map y_label (map select_columns D))"
    using d by (simp add: comp_def select_columns_def)
  have s: "filter (\<lambda>r. y_unique_id r = Some u) (map select_columns D) =
           map select_columns (filter (\<lambda>r. o_unique_id r = Some u) D)"
    by (simp add: filter_map comp_def select_columns_def)
  have "filter (\<lambda>r. i_unique_id r = Some u)
           (map set_index (snd (train_test_split h (map select_columns D)))) =
        map set_index (filter (\<lambda>r. y_unique_id r = Some u)
           (snd (train_test_split h (map select_columns D))))"
    by (simp add: filter_map comp_def set_index_def)
  also have "\<dots> = map set_index
      (take (length (filter (\<lambda>r. y_unique_id r = Some u) (map select_columns D)) - h)
         (filter (\<lambda>r. y_unique_id r = Some u) (map select_columns D)))"
    unfolding train_series [OF dl] ..
  also have "\<dots> = map (\<lambda>r. set_index (select_columns r))
           (take (length (filter (\<lambda>r. o_unique_id r = Some u) D) - h)
              (filter (\<lambda>r. o_unique_id r = Some u) D))"
    unfolding s by (simp add: take_map)
  finally show ?thesis .
qed

lemma read_and_parse_load:
  assumes "read_and_parse E item_id dataset w = (Inr P, w1, ev1)"
  obtains data where
    "load_item_data E item_id dataset ''./data/favorita'' w = (Inr data, w1, ev1)"
    "p_Y_train_df P = map set_index
       (snd (train_test_split (d_horizon data) (map select_columns (d_Y_df data))))"
    "p_Y_test_df P = map set_index
       (fst (train_test_split (d_horizon data) (map select_columns (d_Y_df data))))"
    "p_horizon P = d_horizon data" "p_seasonality P = d_seasonality data"
  using assms
  by (auto simp: read_and_parse_def Let_def split: sum.splits prod.splits if_splits)


text \<open>
  Claim C4, as the code has it. StatsForecast is called on the training frame of the
  split, the frame a returning run of \<^verbatim>\<open>run_baselines\<close> returns, and nothing selects
  rows by aggregation level: when the index labels of the item's table are unique, the
  frame holds, for every series id, bottom-level or aggregate alike, all rows of that
  series but its last \<open>horizon\<close> rows (so none of a series with at most \<open>horizon\<close>
  rows). The model is AutoARIMA with the dataset's season length, the fallback model is
  Naive, and the horizon is the dataset's.
\<close>

theorem forecaster_gets_train_frame:
  assumes run: "run_baselines E intervals_method item_id dataset w = (r, w', evs)"
  shows "(\<forall>a. EvForecast a \<in> set evs \<longrightarrow>
            (\<exists>info. FavoritaInfo E dataset = Some info \<and>
               fa_models a = [AutoARIMA (i_seasonality info)] \<and>
               fa_h a = i_horizon info) \<and>
            fa_fallback_model a = [Naive] \<and>
            (\<exists>data w1 ev1.
               load_item_data E item_id dataset ''./data/favorita'' w = (Inr data, w1, ev1) \<and>
               fa_df a = map set_index
                 (snd (train_test_split (d_horizon data) (map select_columns (d_Y_df data)))) \<and>
               (distinct (map o_label (d_Y_df data)) \<longrightarrow>
                  (\<forall>u. filter (\<lambda>r. i_unique_id r = Some u) (fa_df a) =
                        map (\<lambda>r. set_index (select_columns r))
                          (take (length (filter (\<lambda>r. o_unique_id r = Some u) (d_Y_df data))
                                   - d_horizon data)
                             (filter (\<lambda>r. o_unique_id r = Some u) (d_Y_df data))))))) \<and>
         (\<forall>Y_rec Y_test Y_train. r = Inr (Y_rec, Y_test, Y_train) \<longrightarrow>
            (\<forall>a. EvForecast a \<in> set evs \<longrightarrow> fa_df a = Y_train))"
proof -
  have a: "(\<exists>info. FavoritaInfo E dataset = Some info \<and>
               fa_models a = [AutoARIMA (i_seasonality info)] \<and>
               fa_h a = i_horizon info) \<and>
            fa_fallback_model a = [Naive] \<and>
            (\<exists>data w1 ev1.
               load_item_data E item_id dataset ''./data/favorita'' w = (Inr data, w1, ev1) \<and>
               fa_df a = map set_index
                 (snd (train_test_split (d_horizon data) (map select_columns (d_Y_df data)))) \<and>
               (distinct (map o_label (d_Y_df data)) \<longrightarrow>
                  (\<forall>u. filter (\<lambda>r. i_unique_id r = Some u) (fa_df a) =
                        map (\<lambda>r. set_index (select_columns r))
                          (take (length (filter (\<lambda>r. o_unique_id r = Some u) (d_Y_df data))
                                   - d_horizon data)
                             (filter (\<lambda>r. o_unique_id r = Some u) (d_Y_df data))))))"
    if "EvForecast a \<in> set evs" for a
    using run that
  proof (cases rule: run_baselines_forecast_event)
    case (1 P w1 ev1)
    from 1(1) have i: "\<exists>info. FavoritaInfo E dataset = Some info \<and>
               fa_models a = [AutoARIMA (i_seasonality info)] \<and> fa_h a = i_horizon info"
    proof (cases rule: read_and_parse_result)
      case (1 info Y_all S tags stored)
      then show ?thesis using \<open>a = forecast_args P\<close> by (simp add: forecast_args_def)
    qed
    have f: "fa_fallback_model a = [Naive]" "fa_df a = p_Y_train_df P"
      using 1(2) by (simp_all add: forecast_args_def)
    from 1(1) obtain data where data:
      "load_item_data E item_id dataset ''./data/favorita'' w = (Inr data, w1, ev1)"
      "p_Y_train_df P = map set_index
         (snd (train_test_split (d_horizon data) (map select_columns (d_Y_df data))))"
      by (rule read_and_parse_load)
    have df: "fa_df a = map set_index
         (snd (train_test_split (d_horizon data) (map select_columns (d_Y_df data))))"
      using f(2) data(2) by simp
    have ser: "filter (\<lambda>r. i_unique_id r = Some u) (fa_df a) =
                 map (\<lambda>r. set_index (select_columns r))
                   (take (length (filter (\<lambda>r. o_unique_id r = Some u) (d_Y_df data))
                            - d_horizon data)
                      (filter (\<lambda>r. o_unique_id r = Some u) (d_Y_df data)))"
      if "distinct (map o_label (d_Y_df data))" for u
      unfolding df using that by (rule train_frame_series)
    show ?thesis using i f(1) data(1) df ser by blast
  qed
  have b: "fa_df a = Y_train"
    if res: "r = Inr (Y_rec, Y_test, Y_train)" and ev: "EvForecast a \<in> set evs"
    for Y_rec Y_test Y_train a
    using run [unfolded res]
  proof (cases rule: run_baselines_result)
    case (1 P w1 ev1 Yp w2 ev2 ev3)
    from run ev obtain P' w1' ev1' where
      "read_and_parse E item_id dataset w = (Inr P', w1', ev1')" "a = forecast_args P'"
      by (rule run_baselines_forecast_event)
    then have "fa_df a = p_Y_train_df P" using 1(1) by (simp add: forecast_args_def)
    moreover have "Y_train = p_Y_train_df P"
      using reconcile_predictions_result [OF 1(3)] by blast
    ultimately show ?thesis by simp
  qed
  show ?thesis using a b by blast
qed

text \<open>On the small hierarchy the frame handed to the forecaster has the rows of
  \<open>total\<close>, which is a row of the summation matrix and not one of its columns.\<close>

theorem forecaster_gets_aggregates_counterexample:
  "snd (snd (run_baselines demo_env ''bootstrap'' 7 ''Favorita200'' empty_world)) ! 1 =
     EvForecast (forecast_args demo_parsed) \<and>
   \<lparr>i_unique_id = Some ''total'', i_ds = 1, i_val = 6\<rparr> \<in> set (fa_df (forecast_args demo_parsed)) \<and>
   ''total'' \<in> set (s_index demo_S_df) \<and>
   ''total'' \<notin> set (s_columns demo_S_df)"
  unfolding demo_run_events
  by (simp add: forecast_args_def demo_parsed_def demo_S_df_def)

lemma demo_run_train:
  "(case fst (run_baselines demo_env ''bootstrap'' 7 ''Favorita200'' empty_world) of
      Inl e \<Rightarrow> False
    | Inr (Y_rec, Y_test, Y_train) \<Rightarrow> Y_train = p_Y_train_df demo_parsed)"
  by code_simp

lemma demo_load_labels:
  "(case load_item_data demo_env 7 ''Favorita200'' ''./data/favorita'' empty_world of
      (Inl e, w1, ev1) \<Rightarrow> False
    | (Inr data, w1, ev1) \<Rightarrow> distinct (map o_label (d_Y_df data)))"
  by code_simp

theorem forecaster_gets_train_frame_witness:
  "EvForecast (forecast_args demo_parsed)
     \<in> set (snd (snd (run_baselines demo_env ''bootstrap'' 7 ''Favorita200'' empty_world))) \<and>
   (\<exists>Y_rec Y_test. fst (run_baselines demo_env ''bootstrap'' 7 ''Favorita200'' empty_world)
       = Inr (Y_rec, Y_test, fa_df (forecast_args demo_parsed))) \<and>
   fa_fallback_model (forecast_args demo_parsed) = [Naive] \<and>
   (\<exists>info. FavoritaInfo demo_env ''Favorita200'' = Some info \<and>
      fa_models (forecast_args demo_parsed) = [AutoARIMA (i_seasonality info)]) \<and>
   (\<exists>data w1 ev1.
      load_item_data demo_env 7 ''Favorita200'' ''./data/favorita'' empty_world
        = (Inr data, w1, ev1) \<and>
      distinct (map o_label (d_Y_df data)) \<and>
      filter (\<lambda>r. i_unique_id r = Some ''total'') (fa_df (forecast_args demo_parsed)) =
        map (\<lambda>r. set_index (select_columns r))
          (take (length (filter (\<lambda>r. o_unique_id r = Some ''total'') (d_Y_df data))
                   - d_horizon data)
             (filter (\<lambda>r. o_unique_id r = Some ''total'') (d_Y_df data)))) \<and>
   filter (\<lambda>r. i_unique_id r = Some ''total'') (fa_df (forecast_args demo_parsed)) =
     [\<lparr>i_unique_id = Some ''total'', i_ds = 1, i_val = 6\<rparr>]"
proof -
  obtain r w' evs where
    run: "run_baselines demo_env ''bootstrap'' 7 ''Favorita200'' empty_world = (r, w', evs)"
    by (cases "run_baselines demo_env ''bootstrap'' 7 ''Favorita200'' empty_world") auto
  have evs: "evs = snd (snd (run_baselines demo_env ''bootstrap'' 7 ''Favorita200'' empty_world))"
    and r: "r = fst (run_baselines demo_env ''bootstrap'' 7 ''Favorita200'' empty_world)"
    using run by simp_all
  have m: "EvForecast (forecast_args demo_parsed) \<in> set evs"
    unfolding evs demo_run_events by simp
  obtain Y_rec Y_test Y_train where res: "r = Inr (Y_rec, Y_test, Y_train)"
    using demo_run_train unfolding r [symmetric] by (auto split: sum.splits prod.splits)
  note t = forecaster_gets_train_frame [OF run]
  from t m res have tr: "fa_df (forecast_args demo_parsed) = Y_train" by blast
  from t m have mf: "fa_fallback_model (forecast_args demo_parsed) = [Naive]"
    and mi: "\<exists>info. FavoritaInfo demo_env ''Favorita200'' = Some info \<and>
        fa_models (forecast_args demo_parsed) = [AutoARIMA (i_seasonality info)]"
    by blast+
  from t m obtain data w1 ev1 where
    ld: "load_item_data demo_env 7 ''Favorita200'' ''./data/favorita'' empty_world
           = (Inr data, w1, ev1)"
    and ser: "distinct (map o_label (d_Y_df data)) \<longrightarrow>
       (\<forall>u. filter (\<lambda>r. i_unique_id r = Some u) (fa_df (forecast_args demo_parsed)) =
             map (\<lambda>r. set_index (select_columns r))
               (take (length (filter (\<lambda>r. o_unique_id r = Some u) (d_Y_df data))
                        - d_horizon data)
                  (filter (\<lambda>r. o_unique_id r = Some u) (d_Y_df data))))"
    by blast
  have dl: "distinct (map o_label (d_Y_df data))"
    using demo_load_labels unfolding ld by simp
  from ser dl have st:
    "filter (\<lambda>r. i_unique_id r = Some ''total'') (fa_df (forecast_args demo_parsed)) =
        map (\<lambda>r. set_index (select_columns r))
          (take (length (filter (\<lambda>r. o_unique_id r = Some ''total'') (d_Y_df data))
                   - d_horizon data)
             (filter (\<lambda>r. o_unique_id r = Some ''total'') (d_Y_df data)))"
    by blast
  have ex: "\<exists>data w1 ev1.
      load_item_data demo_env 7 ''Favorita200'' ''./data/favorita'' empty_world
        = (Inr data, w1, ev1) \<and>
      distinct (map o_label (d_Y_df data)) \<and>
      filter (\<lambda>r. i_unique_id r = Some ''total'') (fa_df (forecast_args demo_parsed)) =
        map (\<lambda>r. set_index (select_columns r))
          (take (length (filter (\<lambda>r. o_unique_id r = Some ''total'') (d_Y_df data))
                   - d_horizon data)
             (filter (\<lambda>r. o_unique_id r = Some ''total'') (d_Y_df data)))"
    using ld dl st by (intro exI conjI) assumption+
  have tot: "filter (\<lambda>r. i_unique_id r = Some ''total'') (fa_df (forecast_args demo_parsed)) =
     [\<lparr>i_unique_id = Some ''total'', i_ds = 1, i_val = 6\<rparr>]"
    by (simp add: forecast_args_def demo_parsed_def)
  have rs: "\<exists>Y_rec Y_test. fst (run_baselines demo_env ''bootstrap'' 7 ''Favorita200'' empty_world)
       = Inr (Y_rec, Y_test, fa_df (forecast_args demo_parsed))"
    using res tr unfolding r by blast
  show ?thesis using m [unfolded evs] rs mf mi ex tot by (intro conjI) assumption+
qed

subsection \<open>The reconciled file\<close>

text \<open>
  Claim C7. A run of \<^verbatim>\<open>run_baselines\<close> that returns has written the file
  \<^verbatim>\<open>./data/{dataset}/{item_id}/{intervals_method}_rec.csv\<close>, and the file holds the rows
  of the reconciled frame the run returns (\<^verbatim>\<open>index=False\<close>: without the labels), which
  is the output of \<^verbatim>\<open>bootstrap_reconcile\<close> reordered.
\<close>

theorem reconciled_frame_written:
  assumes run: "run_baselines E intervals_method item_id dataset w
                  = (Inr (Y_rec, Y_test, Y_train), w', evs)"
  shows "files w' (''./data/'' @ dataset @ ''/'' @ str_int item_id @ ''/''
                     @ intervals_method @ ''_rec.csv'') = Some (map rec_to_csv Y_rec) \<and>
         last evs = EvWriteCsv (''./data/'' @ dataset @ ''/'' @ str_int item_id @ ''/''
                     @ intervals_method @ ''_rec.csv'') \<and>
         (\<exists>a B. EvReconcile a \<in> set evs \<and> bootstrap_reconcile E a = Inr B \<and>
                 Y_rec = align_rec (s_index (ra_S_df a)) B)"
  using run
proof (cases rule: run_baselines_result)
  case (1 P w1 ev1 Yp w2 ev2 ev3)
  obtain B where B: "bootstrap_reconcile E (reconcile_args E intervals_method P Yp) = Inr B"
      "Y_rec = align_rec (s_index (p_S_df P)) B"
      "w' = to_csv (yrec_file dataset item_id intervals_method) (map rec_to_csv Y_rec) w2"
      "ev3 = [EvReconcile (reconcile_args E intervals_method P Yp),
              EvWriteCsv (yrec_file dataset item_id intervals_method)]"
    using reconcile_predictions_result [OF 1(3)] by blast
  have p: "yrec_file dataset item_id intervals_method =
      ''./data/'' @ dataset @ ''/'' @ str_int item_id @ ''/'' @ intervals_method @ ''_rec.csv''"
    by (simp add: yrec_file_def item_path_def)
  have "files w' (yrec_file dataset item_id intervals_method) = Some (map rec_to_csv Y_rec)"
    using B(3) by (simp add: to_csv_def)
  moreover have "last evs = EvWriteCsv (yrec_file dataset item_id intervals_method)"
    using 1(4) B(4) by simp
  moreover have "EvReconcile (reconcile_args E intervals_method P Yp) \<in> set evs"
    using 1(4) B(4) by simp
  moreover have "ra_S_df (reconcile_args E intervals_method P Yp) = p_S_df P"
    by (simp add: reconcile_args_def)
  ultimately show ?thesis using B(1,2) unfolding p by metis
qed

lemma demo_run_returns:
  "(case fst (run_baselines demo_env ''bootstrap'' 7 ''Favorita200'' empty_world) of
      Inl e \<Rightarrow> False
    | Inr (Y_rec, Y_test, Y_train) \<Rightarrow>
        take 2 (map rec_to_csv Y_rec) =
          [\<lparr>c_unique_id = ''total'', c_ds = 2, c_vals = [6, 0]\<rparr>,
           \<lparr>c_unique_id = ''a'', c_ds = 2, c_vals = [201 / 50, 0]\<rparr>] \<and>
        length Y_rec = 30)"
  by code_simp

theorem reconciled_frame_written_witness:
  "(\<exists>Y_rec Y_test Y_train.
      fst (run_baselines demo_env ''bootstrap'' 7 ''Favorita200'' empty_world)
        = Inr (Y_rec, Y_test, Y_train) \<and>
      files (fst (snd (run_baselines demo_env ''bootstrap'' 7 ''Favorita200'' empty_world)))
        (''./data/'' @ ''Favorita200'' @ ''/'' @ str_int 7 @ ''/'' @ ''bootstrap'' @ ''_rec.csv'')
        = Some (map rec_to_csv Y_rec) \<and>
      take 2 (map rec_to_csv Y_rec) =
          [\<lparr>c_unique_id = ''total'', c_ds = 2, c_vals = [6, 0]\<rparr>,
           \<lparr>c_unique_id = ''a'', c_ds = 2, c_vals = [201 / 50, 0]\<rparr>] \<and>
      length Y_rec = 30)"
proof -
  obtain r w' evs where
    run: "run_baselines demo_env ''bootstrap'' 7 ''Favorita200'' empty_world = (r, w', evs)"
    by (cases "run_baselines demo_env ''bootstrap'' 7 ''Favorita200'' empty_world") auto
  have r: "r = fst (run_baselines demo_env ''bootstrap'' 7 ''Favorita200'' empty_world)"
    and w': "w' = fst (snd (run_baselines demo_env ''bootstrap'' 7 ''Favorita200'' empty_world))"
    using run by simp_all
  obtain Y_rec Y_test Y_train where res: "r = Inr (Y_rec, Y_test, Y_train)"
    and shape: "take 2 (map rec_to_csv Y_rec) =
          [\<lparr>c_unique_id = ''total'', c_ds = 2, c_vals = [6, 0]\<rparr>,
           \<lparr>c_unique_id = ''a'', c_ds = 2, c_vals = [201 / 50, 0]\<rparr>]" "length Y_rec = 30"
    using demo_run_returns unfolding r [symmetric] by (auto split: sum.splits prod.splits)
  from reconciled_frame_written [OF run [unfolded res]]
  have "files w' (''./data/'' @ ''Favorita200'' @ ''/'' @ str_int 7 @ ''/'' @ ''bootstrap'' @ ''_rec.csv'')
          = Some (map rec_to_csv Y_rec)"
    by blast
  then show ?thesis using res shape unfolding r w' by blast
qed

subsection \<open>The cache is only read\<close>

text \<open>
  Claim C10. When \<^verbatim>\<open>./data/{dataset}/{item_id}/Y_hat.csv\<close> exists, a run of
  \<^verbatim>\<open>run_baselines\<close> leaves \<^verbatim>\<open>Y_hat.csv\<close> and \<^verbatim>\<open>Y_fitted.csv\<close> as they are, whatever
  \<^verbatim>\<open>intervals_method\<close> is and whether the run returns or fails: it writes neither file and
  calls no forecaster. The cache paths do not mention \<^verbatim>\<open>intervals_method\<close>, so the
  base forecasts and fitted values handed to the reconciliation are the contents of these
  two files for every method.
\<close>

theorem cache_left_unchanged:
  assumes ex: "os_path_exists (yhat_file dataset item_id) w"
      and run: "run_baselines E intervals_method item_id dataset w = (r, w', evs)"
  shows "files w' (yhat_file dataset item_id) = files w (yhat_file dataset item_id) \<and>
         files w' (yfitted_file dataset item_id) = files w (yfitted_file dataset item_id) \<and>
         EvWriteCsv (yhat_file dataset item_id) \<notin> set evs \<and>
         EvWriteCsv (yfitted_file dataset item_id) \<notin> set evs \<and>
         (\<forall>a. EvForecast a \<notin> set evs) \<and>
         (\<forall>a. EvReconcile a \<in> set evs \<longrightarrow>
            ra_intervals_method a = intervals_method \<and>
            files w (yhat_file dataset item_id) = Some (ra_Y_hat_df a) \<and>
            files w (yfitted_file dataset item_id) = Some (ra_Y_df a))"
proof (cases "read_and_parse E item_id dataset w")
  case (fields r1 w1 ev1)
  have e1: "set ev1 \<subseteq> {EvLoad ''./data/favorita'' dataset}"
    using fields by (rule read_and_parse_events)
  have same: "files w1 = files w" "dirs w1 = dirs w"
    using fields read_and_parse_world by blast+
  then have ex1: "os_path_exists (yhat_file dataset item_id) w1"
    using ex by (simp add: os_path_exists_def)
  show ?thesis
  proof (cases r1)
    case (Inl e)
    then show ?thesis using run e1 fields same by (auto simp: run_baselines_failed_parse)
  next
    case (Inr P)
    from run fields [unfolded Inr] show ?thesis
    proof (cases rule: run_baselines_stages)
      case (fit_failed e w2 ev2)
      then show ?thesis
        using e1 same fit_predict_cached_frame [OF ex1 fit_failed(1)] by auto
    next
      case (reconciled Yp w2 ev2 ev3)
      note c = fit_predict_cached_frame [OF ex1 reconciled(1)]
      note v = reconcile_predictions_events [OF reconciled(2)]
      have f1: "files w' (yhat_file dataset item_id) = files w2 (yhat_file dataset item_id)"
        using reconciled(2) yrec_neq_yhat [of dataset item_id intervals_method]
        by (intro reconcile_predictions_files) auto
      have f2: "files w' (yfitted_file dataset item_id) = files w2 (yfitted_file dataset item_id)"
        using reconciled(2) yrec_neq_yfitted [of dataset item_id intervals_method]
        by (intro reconcile_predictions_files) auto
      have n1: "EvWriteCsv (yhat_file dataset item_id) \<notin> set evs"
        using e1 c v reconciled(3) yrec_neq_yhat [of dataset item_id intervals_method]
        by auto
      have n2: "EvWriteCsv (yfitted_file dataset item_id) \<notin> set evs"
        using e1 c v reconciled(3) yrec_neq_yfitted [of dataset item_id intervals_method]
        by auto
      have n3: "EvForecast a \<notin> set evs" for a
        using e1 c v reconciled(3) by auto
      have n4: "ra_intervals_method a = intervals_method \<and>
            files w (yhat_file dataset item_id) = Some (ra_Y_hat_df a) \<and>
            files w (yfitted_file dataset item_id) = Some (ra_Y_df a)"
        if "EvReconcile a \<in> set evs" for a
      proof -
        have "a = reconcile_args E intervals_method P Yp"
          using that e1 c v reconciled(3) by auto
        then show ?thesis using c same by (simp add: reconcile_args_def)
      qed
      show ?thesis using f1 f2 n1 n2 n3 n4 c same by simp
    qed
  qed
qed


lemma demo_cached_files:
  "files cached_world (yhat_file ''Favorita200'' 7)
     = Some [\<lparr>c_unique_id = ''a'', c_ds = 2, c_vals = [4]\<rparr>] \<and>
   files cached_world (yfitted_file ''Favorita200'' 7)
     = Some [\<lparr>c_unique_id = ''a'', c_ds = 1, c_vals = [4]\<rparr>]"
  by code_simp

theorem cache_left_unchanged_witness:
  "os_path_exists (yhat_file ''Favorita200'' 7) cached_world \<and>
   files (fst (snd (run_baselines demo_env ''permbu'' 7 ''Favorita200'' cached_world)))
     (yhat_file ''Favorita200'' 7) = Some [\<lparr>c_unique_id = ''a'', c_ds = 2, c_vals = [4]\<rparr>] \<and>
   files (fst (snd (run_baselines demo_env ''permbu'' 7 ''Favorita200'' cached_world)))
     (yfitted_file ''Favorita200'' 7) = Some [\<lparr>c_unique_id = ''a'', c_ds = 1, c_vals = [4]\<rparr>] \<and>
   EvWriteCsv (yhat_file ''Favorita200'' 7)
     \<notin> set (snd (snd (run_baselines demo_env ''permbu'' 7 ''Favorita200'' cached_world))) \<and>
   EvWriteCsv (yfitted_file ''Favorita200'' 7)
     \<notin> set (snd (snd (run_baselines demo_env ''permbu'' 7 ''Favorita200'' cached_world)))"
proof -
  have ex: "os_path_exists (yhat_file ''Favorita200'' 7) cached_world" by code_simp
  obtain r w' evs where
    run: "run_baselines demo_env ''permbu'' 7 ''Favorita200'' cached_world = (r, w', evs)"
    by (cases "run_baselines demo_env ''permbu'' 7 ''Favorita200'' cached_world") auto
  have evs: "evs = snd (snd (run_baselines demo_env ''permbu'' 7 ''Favorita200'' cached_world))"
    and w': "w' = fst (snd (run_baselines demo_env ''permbu'' 7 ''Favorita200'' cached_world))"
    using run by simp_all
  show ?thesis
    using cache_left_unchanged [OF ex run] ex demo_cached_files unfolding evs w' by simp
qed

subsection \<open>The order of the returned frames\<close>

lemma sort_hier_df_sorted:
  "sort_hier_df Y S = Inr stored \<Longrightarrow>
     sorted (map (\<lambda>r. (cat_code (s_index S) (o_unique_id r), o_ds r)) stored)"
  by (auto simp: sort_hier_df_def Let_def split: if_splits)

lemma add_noise_keys:
  "length noise = length Y \<Longrightarrow>
     map (\<lambda>r. (cat_code cats (o_unique_id r), o_ds r)) (add_noise Y noise) =
     map (\<lambda>r. (cat_code cats (o_unique_id r), o_ds r)) Y"
  unfolding add_noise_def
  by (induction noise Y rule: list_induct2) simp_all

lemma random_normal_length: "length (fst (random_normal E loc scale n w)) = n"
  by (simp add: random_normal_def)

lemma train_frame_sorted:
  assumes "sorted (map (\<lambda>r. (cat_code cats (o_unique_id r), o_ds r)) Y)"
  shows "sorted (map (\<lambda>r. (cat_code cats (i_unique_id r), i_ds r))
           (map set_index (snd (train_test_split h (map select_columns Y)))))"
proof -
  have "sorted (map (\<lambda>r. (cat_code cats (y_unique_id r), y_ds r)) (map select_columns Y))"
    using assms by (simp add: comp_def select_columns_def)
  then have "sorted (map (\<lambda>r. (cat_code cats (y_unique_id r), y_ds r))
                (snd (train_test_split h (map select_columns Y))))"
    unfolding train_test_split_def Let_def snd_conv df_drop_def by (rule sorted_filter)
  then show ?thesis by (simp add: comp_def set_index_def)
qed

text \<open>
  Claim C5. The three frames a run of \<^verbatim>\<open>run_baselines\<close> returns are in the order of
  \<^verbatim>\<open>S_df.index\<close>: the reconciled frame by seed, then by the position of the series in
  \<^verbatim>\<open>S_df.index\<close>, then by date; the test and the train frame by the position of the
  series, then by date. The reconciled and the test frame are sorted in the alignment
  step; the train frame has this order from \<^verbatim>\<open>_sort_hier_df\<close> in \<^verbatim>\<open>load_item_data\<close>,
  which the split keeps.
\<close>

theorem returned_frames_ordered:
  assumes run: "run_baselines E intervals_method item_id dataset w
                  = (Inr (Y_rec, Y_test, Y_train), w', evs)"
      and load: "FavoritaData_load E ''./data/favorita'' dataset = Inr (Y_all, S_df, tags)"
  shows "sorted (map (\<lambda>r. (k_seed r, cat_code (s_index S_df) (k_unique_id r), k_ds r)) Y_rec) \<and>
         sorted (map (\<lambda>r. (cat_code (s_index S_df) (y_unique_id r), y_ds r)) Y_test) \<and>
         sorted (map (\<lambda>r. (cat_code (s_index S_df) (i_unique_id r), i_ds r)) Y_train)"
  using run
proof (cases rule: run_baselines_result)
  case (1 P w1 ev1 Yp w2 ev2 ev3)
  obtain B where B: "Y_rec = align_rec (s_index (p_S_df P)) B"
      "Y_test = align_test (s_index (p_S_df P)) (p_Y_test_df P)"
      "Y_train = p_Y_train_df P"
    using reconcile_predictions_result [OF 1(3)] by blast
  from 1(1) show ?thesis
  proof (cases rule: read_and_parse_result)
    case (1 info Y_all' S tags' stored)
    have S: "p_S_df P = S_df" using 1(2,4) load by simp
    have "sorted (map (\<lambda>r. (cat_code (s_index S_df) (o_unique_id r), o_ds r)) stored)"
      using sort_hier_df_sorted [OF 1(3)] 1(2) load by simp
    then have "sorted (map (\<lambda>r. (cat_code (s_index S_df) (o_unique_id r), o_ds r))
       (add_noise stored (fst (random_normal E 0 (1 / 100) (length stored) w))))"
      by (simp add: add_noise_keys random_normal_length)
    then have tr: "sorted (map (\<lambda>r. (cat_code (s_index S_df) (i_unique_id r), i_ds r)) Y_train)"
      unfolding B(3) 1(10) by (rule train_frame_sorted)
    have re: "sorted (map (\<lambda>r. (k_seed r, cat_code (s_index S_df) (k_unique_id r), k_ds r)) Y_rec)"
      unfolding B(1) S align_rec_def by (rule sorted_sort_key)
    have te: "sorted (map (\<lambda>r. (cat_code (s_index S_df) (y_unique_id r), y_ds r)) Y_test)"
      unfolding B(2) S align_test_def by (rule sorted_sort_key)
    show ?thesis using re te tr by simp
  qed
qed

lemma demo_run_ok:
  "(case fst (run_baselines demo_env ''bootstrap'' 7 ''Favorita200'' empty_world) of
      Inl e \<Rightarrow> False
    | Inr (Y_rec, Y_test, Y_train) \<Rightarrow>
        map y_unique_id Y_test = [Some ''total'', Some ''a'', Some ''b''] \<and>
        map i_unique_id Y_train = [Some ''total'', Some ''a'', Some ''b''] \<and>
        map k_unique_id (take 4 Y_rec) = [Some ''total'', Some ''a'', Some ''b'', Some ''total''] \<and>
        map k_seed (take 4 Y_rec) = [0, 0, 0, 1])"
  by code_simp

theorem returned_frames_ordered_witness:
  "FavoritaData_load demo_env ''./data/favorita'' ''Favorita200''
     = Inr (demo_rows, demo_S_df, demo_tags) \<and>
   (\<exists>Y_rec Y_test Y_train.
      fst (run_baselines demo_env ''bootstrap'' 7 ''Favorita200'' empty_world)
        = Inr (Y_rec, Y_test, Y_train) \<and>
      map y_unique_id Y_test = [Some ''total'', Some ''a'', Some ''b''] \<and>
      map i_unique_id Y_train = [Some ''total'', Some ''a'', Some ''b''] \<and>
      map k_unique_id (take 4 Y_rec) = [Some ''total'', Some ''a'', Some ''b'', Some ''total''] \<and>
      map k_seed (take 4 Y_rec) = [0, 0, 0, 1] \<and>
      sorted (map (\<lambda>r. (k_seed r, cat_code (s_index demo_S_df) (k_unique_id r), k_ds r)) Y_rec) \<and>
      sorted (map (\<lambda>r. (cat_code (s_index demo_S_df) (y_unique_id r), y_ds r)) Y_test) \<and>
      sorted (map (\<lambda>r. (cat_code (s_index demo_S_df) (i_unique_id r), i_ds r)) Y_train))"
proof -
  have load: "FavoritaData_load demo_env ''./data/favorita'' ''Favorita200''
     = Inr (demo_rows, demo_S_df, demo_tags)"
    by (simp add: demo_env_def)
  obtain r w' evs where
    run: "run_baselines demo_env ''bootstrap'' 7 ''Favorita200'' empty_world = (r, w', evs)"
    by (cases "run_baselines demo_env ''bootstrap'' 7 ''Favorita200'' empty_world") auto
  have r: "r = fst (run_baselines demo_env ''bootstrap'' 7 ''Favorita200'' empty_world)"
    using run by simp
  obtain Y_rec Y_test Y_train where res: "r = Inr (Y_rec, Y_test, Y_train)"
    and shape: "map y_unique_id Y_test = [Some ''total'', Some ''a'', Some ''b'']"
      "map i_unique_id Y_train = [Some ''total'', Some ''a'', Some ''b'']"
      "map k_unique_id (take 4 Y_rec) = [Some ''total'', Some ''a'', Some ''b'', Some ''total'']"
      "map k_seed (take 4 Y_rec) = [0, 0, 0, 1]"
    using demo_run_ok unfolding r [symmetric] by (auto split: sum.splits prod.splits)
  note t = returned_frames_ordered [OF run [unfolded res] load]
  have s1: "sorted (map (\<lambda>r. (k_seed r, cat_code (s_index demo_S_df) (k_unique_id r), k_ds r)) Y_rec)"
    and s2: "sorted (map (\<lambda>r. (cat_code (s_index demo_S_df) (y_unique_id r), y_ds r)) Y_test)"
    and s3: "sorted (map (\<lambda>r. (cat_code (s_index demo_S_df) (i_unique_id r), i_ds r)) Y_train)"
    using t by (rule conjunct1, rule conjunct2 [THEN conjunct1], rule conjunct2 [THEN conjunct2])
  show ?thesis
    using load res [unfolded r] shape s1 s2 s3
    by (intro conjI exI) assumption+
qed

subsection \<open>The seeds of the reconciled frame\<close>

lemma set_align_rec:
  "set (align_rec cats B) =
     (\<lambda>(n, r). \<lparr>k_label = n, k_unique_id = set_categories cats (b_unique_id r),
                 k_ds = b_ds r, k_vals = b_vals r, k_seed = b_seed r\<rparr>) ` set (enumerate 0 B)"
  by (simp add: align_rec_def)

lemma align_rec_labelled:
  "(m, b) \<in> set (enumerate 0 B) \<Longrightarrow>
     \<lparr>k_label = m, k_unique_id = set_categories cats (b_unique_id b),
      k_ds = b_ds b, k_vals = b_vals b, k_seed = b_seed b\<rparr> \<in> set (align_rec cats B)"
  unfolding set_align_rec
  apply (rule image_eqI [of _ _ "(m, b)"])
   apply (simp only: prod.case)
  apply assumption
  done

lemma enumerate_member: "b \<in> set B \<Longrightarrow> \<exists>n. (n, b) \<in> set (enumerate 0 B)"
proof -
  assume "b \<in> set B"
  then obtain i where "i < length B" "B ! i = b" by (auto simp: in_set_conv_nth)
  then have "(i, b) \<in> set (enumerate 0 B)" by (simp add: in_set_enumerate_eq)
  then show ?thesis ..
qed

lemma align_rec_member:
  "b \<in> set B \<Longrightarrow>
     \<exists>k \<in> set (align_rec cats B). k_seed k = b_seed b \<and>
        k_unique_id k = set_categories cats (b_unique_id b) \<and> k_ds k = b_ds b"
proof -
  assume b: "b \<in> set B"
  from enumerate_member [OF b] obtain m where m: "(m, b) \<in> set (enumerate 0 B)" ..
  have "\<lparr>k_label = m, k_unique_id = set_categories cats (b_unique_id b),
         k_ds = b_ds b, k_vals = b_vals b, k_seed = b_seed b\<rparr> \<in> set (align_rec cats B)"
    using m by (rule align_rec_labelled)
  then show ?thesis by (rule rev_bexI) simp
qed

lemma align_rec_rows:
  "k \<in> set (align_rec cats B) \<Longrightarrow>
     \<exists>b \<in> set B. k_seed k = b_seed b \<and>
        k_unique_id k = set_categories cats (b_unique_id b) \<and> k_ds k = b_ds b"
proof -
  assume "k \<in> set (align_rec cats B)"
  then obtain p where p: "p \<in> set (enumerate 0 B)"
     "k = \<lparr>k_label = fst p, k_unique_id = set_categories cats (b_unique_id (snd p)),
            k_ds = b_ds (snd p), k_vals = b_vals (snd p), k_seed = b_seed (snd p)\<rparr>"
    by (auto simp: align_rec_def)
  have "snd p \<in> set B" using p(1) by (metis in_set_enumerate_eq nth_mem diff_zero add_0_right)
  then show ?thesis using p(2) by auto
qed

lemma spec_bootstrap_seed:
  "spec_bootstrap_reconcile reconcile a = Inr B \<Longrightarrow> b \<in> set B \<Longrightarrow> b_seed b < ra_num_seeds a"
  by (auto simp: spec_bootstrap_reconcile_def)

lemma spec_bootstrap_member:
  "spec_bootstrap_reconcile reconcile a = Inr B \<Longrightarrow> r \<in> set (ra_Y_hat_df a) \<Longrightarrow>
     s < ra_num_seeds a \<Longrightarrow>
     \<exists>b \<in> set B. b_seed b = s \<and> b_unique_id b = c_unique_id r \<and> b_ds b = c_ds r"
  by (auto simp: spec_bootstrap_reconcile_def)


lemma image_below_eq:
  fixes f :: "'a \<Rightarrow> nat"
  assumes "\<forall>k \<in> K. f k < n" and "\<forall>s<n. \<exists>k \<in> K. P k \<and> f k = s"
  shows "f ` {k \<in> K. P k} = {0..<n}"
  using assms by force

text \<open>
  Claim C6, with \<^verbatim>\<open>bootstrap_reconcile\<close> as the spec describes it. A run that returns has
  called \<^verbatim>\<open>bootstrap_reconcile\<close> with \<^verbatim>\<open>num_seeds=10\<close> and \<^verbatim>\<open>num_samples=10\<close>; every
  row of the reconciled frame has a seed below 10, and for every series and date of the
  base forecasts the rows of the reconciled frame for that series and date carry exactly
  the ten seeds \<open>0, ..., 9\<close>.
\<close>

theorem bootstrap_ten_seeds:
  assumes boot: "bootstrap_reconcile E = spec_bootstrap_reconcile reconcile"
      and run: "run_baselines E intervals_method item_id dataset w
                  = (Inr (Y_rec, Y_test, Y_train), w', evs)"
  shows "\<exists>a. EvReconcile a \<in> set evs \<and> ra_num_seeds a = 10 \<and> ra_num_samples a = 10 \<and>
           (\<forall>k \<in> set Y_rec. k_seed k < 10) \<and>
           (\<forall>r \<in> set (ra_Y_hat_df a).
              k_seed ` {k \<in> set Y_rec.
                         k_unique_id k = set_categories (s_index (ra_S_df a)) (c_unique_id r) \<and>
                         k_ds k = c_ds r} = {0..<10})"
  using run
proof (cases rule: run_baselines_result)
  case (1 P w1 ev1 Yp w2 ev2 ev3)
  define a where "a = reconcile_args E intervals_method P Yp"
  define cats where "cats = s_index (p_S_df P)"
  obtain B where B: "bootstrap_reconcile E a = Inr B" "Y_rec = align_rec cats B"
      "ev3 = [EvReconcile a, EvWriteCsv (yrec_file dataset item_id intervals_method)]"
    using reconcile_predictions_result [OF 1(3)] unfolding a_def cats_def by blast
  have n: "ra_num_seeds a = 10" "ra_num_samples a = 10" "s_index (ra_S_df a) = cats"
    by (simp_all add: a_def cats_def reconcile_args_def)
  have sb: "spec_bootstrap_reconcile reconcile a = Inr B" using B(1) unfolding boot .
  have ev: "EvReconcile a \<in> set evs" using 1(4) B(3) by simp
  have below: "k_seed k < 10" if "k \<in> set Y_rec" for k
  proof -
    from that obtain b where "b \<in> set B" "k_seed k = b_seed b"
      unfolding B(2) using align_rec_rows by blast
    then show ?thesis using spec_bootstrap_seed [OF sb] n(1) by simp
  qed
  have each: "k_seed ` {k \<in> set Y_rec.
                         k_unique_id k = set_categories cats (c_unique_id r) \<and>
                         k_ds k = c_ds r} = {0..<10}"
    if r: "r \<in> set (ra_Y_hat_df a)" for r
  proof (rule image_below_eq)
    show "\<forall>k \<in> set Y_rec. k_seed k < 10" using below by blast
    show "\<forall>s<10. \<exists>k \<in> set Y_rec.
            (k_unique_id k = set_categories cats (c_unique_id r) \<and> k_ds k = c_ds r) \<and>
            k_seed k = s"
    proof (intro allI impI)
      fix s :: nat assume "s < 10"
      then have "s < ra_num_seeds a" using n(1) by simp
      from spec_bootstrap_member [OF sb r this] obtain b where b: "b \<in> set B"
        "b_seed b = s" "b_unique_id b = c_unique_id r" "b_ds b = c_ds r" by blast
      from align_rec_member [OF b(1), of cats] obtain k where k: "k \<in> set Y_rec"
        "k_seed k = b_seed b" "k_unique_id k = set_categories cats (b_unique_id b)"
        "k_ds k = b_ds b"
        unfolding B(2) by blast
      have "(k_unique_id k = set_categories cats (c_unique_id r) \<and> k_ds k = c_ds r) \<and>
            k_seed k = s"
        using k(2-4) b(2-4) by simp
      then show "\<exists>k \<in> set Y_rec.
            (k_unique_id k = set_categories cats (c_unique_id r) \<and> k_ds k = c_ds r) \<and>
            k_seed k = s"
        using k(1) by (rule rev_bexI [rotated])
    qed
  qed
  have "EvReconcile a \<in> set evs \<and> ra_num_seeds a = 10 \<and> ra_num_samples a = 10 \<and>
           (\<forall>k \<in> set Y_rec. k_seed k < 10) \<and>
           (\<forall>r \<in> set (ra_Y_hat_df a).
              k_seed ` {k \<in> set Y_rec.
                         k_unique_id k = set_categories (s_index (ra_S_df a)) (c_unique_id r) \<and>
                         k_ds k = c_ds r} = {0..<10})"
    unfolding n(3) using ev n(1,2) below each by blast
  then show ?thesis by (rule exI)
qed

lemma demo_run_success:
  "(case fst (run_baselines demo_env ''bootstrap'' 7 ''Favorita200'' empty_world) of
      Inl e \<Rightarrow> False
    | Inr (Y_rec, Y_test, Y_train) \<Rightarrow> length Y_rec = 30)"
  by code_simp

theorem bootstrap_ten_seeds_witness:
  "bootstrap_reconcile demo_env
     = spec_bootstrap_reconcile (\<lambda>a seed r. map (\<lambda>v. v + real seed) (c_vals r)) \<and>
   (\<exists>Y_rec Y_test Y_train.
      fst (run_baselines demo_env ''bootstrap'' 7 ''Favorita200'' empty_world)
        = Inr (Y_rec, Y_test, Y_train) \<and>
      length Y_rec = 30 \<and>
      k_seed ` {k \<in> set Y_rec. k_unique_id k = Some ''total'' \<and> k_ds k = 2} = {0..<10})"
proof -
  have boot: "bootstrap_reconcile demo_env
     = spec_bootstrap_reconcile (\<lambda>a seed r. map (\<lambda>v. v + real seed) (c_vals r))"
    by (simp add: demo_env_def)
  obtain r w' evs where
    run: "run_baselines demo_env ''bootstrap'' 7 ''Favorita200'' empty_world = (r, w', evs)"
    by (cases "run_baselines demo_env ''bootstrap'' 7 ''Favorita200'' empty_world") auto
  have r: "r = fst (run_baselines demo_env ''bootstrap'' 7 ''Favorita200'' empty_world)"
    and evs: "evs = snd (snd (run_baselines demo_env ''bootstrap'' 7 ''Favorita200'' empty_world))"
    using run by simp_all
  obtain Y_rec Y_test Y_train where res: "r = Inr (Y_rec, Y_test, Y_train)"
    and len: "length Y_rec = 30"
    using demo_run_success unfolding r [symmetric] by (auto split: sum.splits prod.splits)
  from bootstrap_ten_seeds [OF boot run [unfolded res]] obtain a where a:
    "EvReconcile a \<in> set evs"
    "\<forall>r \<in> set (ra_Y_hat_df a).
        k_seed ` {k \<in> set Y_rec.
                   k_unique_id k = set_categories (s_index (ra_S_df a)) (c_unique_id r) \<and>
                   k_ds k = c_ds r} = {0..<10}"
    by blast
  have "a = reconcile_args demo_env ''bootstrap'' demo_parsed (demo_Y_hat, demo_Y_fitted)"
    using a(1) unfolding evs demo_run_events by simp
  then have sel: "ra_Y_hat_df a = demo_Y_hat" "s_index (ra_S_df a) = [''total'', ''a'', ''b'']"
    by (simp_all add: reconcile_args_def demo_parsed_def demo_S_df_def)
  have "\<lparr>c_unique_id = ''total'', c_ds = 2, c_vals = [6]\<rparr> \<in> set (ra_Y_hat_df a)"
    unfolding sel by (simp add: demo_Y_hat_def)
  from a(2) [rule_format, OF this]
  have "k_seed ` {k \<in> set Y_rec. k_unique_id k = Some ''total'' \<and> k_ds k = 2} = {0..<10}"
    unfolding sel by (simp add: set_categories_def)
  then show ?thesis using boot res [unfolded r] len by (intro conjI exI) assumption+
qed

subsection \<open>The parameter checks of the last cell\<close>

text \<open>
  Claim C8. The last cell checks \<^verbatim>\<open>intervals_method\<close> and \<^verbatim>\<open>dataset\<close> before anything
  else: with an \<^verbatim>\<open>intervals_method\<close> outside \<^verbatim>\<open>bootstrap\<close>, \<^verbatim>\<open>normality\<close>,
  \<^verbatim>\<open>permbu\<close>, or a \<^verbatim>\<open>dataset\<close> outside \<^verbatim>\<open>Favorita200\<close>, \<^verbatim>\<open>Favorita500\<close>,
  \<^verbatim>\<open>FavoritaComplete\<close>, it fails with an AssertionError, having loaded nothing, fitted
  nothing, reconciled nothing and written nothing.
\<close>

theorem invalid_parameters_rejected:
  assumes "intervals_method \<notin> set [''bootstrap'', ''normality'', ''permbu''] \<or>
           dataset \<notin> set [''Favorita200'', ''Favorita500'', ''FavoritaComplete'']"
  shows "\<exists>msg. main_cell E intervals_method dataset w = (Inl (AssertionError msg), w, [])"
  using assms by (auto simp: main_cell_def available_datasets_def)

theorem invalid_parameters_rejected_witness:
  "''gaussian'' \<notin> set [''bootstrap'', ''normality'', ''permbu''] \<and>
   (\<exists>msg. main_cell demo_env ''gaussian'' ''Favorita200'' empty_world
            = (Inl (AssertionError msg), empty_world, [])) \<and>
   ''Favorita'' \<notin> set [''Favorita200'', ''Favorita500'', ''FavoritaComplete''] \<and>
   (\<exists>msg. main_cell demo_env ''bootstrap'' ''Favorita'' empty_world
            = (Inl (AssertionError msg), empty_world, []))"
proof -
  have a: "''gaussian'' \<notin> set [''bootstrap'', ''normality'', ''permbu'']" by simp
  have b: "''Favorita'' \<notin> set [''Favorita200'', ''Favorita500'', ''FavoritaComplete'']" by simp
  show ?thesis
    using a b
      invalid_parameters_rejected [of "''gaussian''" "''Favorita200''" demo_env empty_world]
      invalid_parameters_rejected [of "''bootstrap''" "''Favorita''" demo_env empty_world]
    by blast
qed

subsection \<open>The noise of \<^verbatim>\<open>load_item_data\<close>\<close>

lemma load_item_data_result:
  assumes "load_item_data E item_id dataset directory w = (Inr d, w', evs)"
  obtains info Y_all S tags stored where
    "FavoritaInfo E dataset = Some info"
    "FavoritaData_load E directory dataset = Inr (Y_all, S, tags)"
    "sort_hier_df (filter (\<lambda>r. r_item_id r = item_id) Y_all) S = Inr stored"
    "d_Y_df d = add_noise stored (fst (random_normal E 0 (1 / 100) (length stored) w))"
    "w' = snd (random_normal E 0 (1 / 100) (length stored) w)"
  using assms
  by (auto simp: load_item_data_def Let_def split: option.splits sum.splits prod.splits)

lemma add_noise_normal:
  "add_noise stored (fst (random_normal E 0 (1 / 100) (length stored) w)) =
     map (\<lambda>(r, i). r\<lparr>o_y := o_y r + std_normal E (rng_pos w + i) / 100\<rparr>)
       (zip stored [0..<length stored])"
  by (auto simp: add_noise_def random_normal_def zip_map2 intro!: nth_equalityI)

lemma noisy_rows_eq_iff:
  "(map (\<lambda>(r, i). r\<lparr>o_y := o_y r + f i\<rparr>) (zip stored [0..<length stored]) =
    map (\<lambda>(r, i). r\<lparr>o_y := o_y r + g i\<rparr>) (zip stored [0..<length stored]))
   \<longleftrightarrow> (\<forall>i < length stored. f i = g i)" for f g :: "nat \<Rightarrow> real"
proof
  assume eq: "map (\<lambda>(r, i). r\<lparr>o_y := o_y r + f i\<rparr>) (zip stored [0..<length stored]) =
    map (\<lambda>(r, i). r\<lparr>o_y := o_y r + g i\<rparr>) (zip stored [0..<length stored])"
  show "\<forall>i < length stored. f i = g i"
  proof (intro allI impI)
    fix i assume i: "i < length stored"
    have "map (\<lambda>(r, i). r\<lparr>o_y := o_y r + f i\<rparr>) (zip stored [0..<length stored]) ! i =
          map (\<lambda>(r, i). r\<lparr>o_y := o_y r + g i\<rparr>) (zip stored [0..<length stored]) ! i"
      by (rule arg_cong [where f = "\<lambda>xs. xs ! i", OF eq])
    then have "(stored ! i)\<lparr>o_y := o_y (stored ! i) + f i\<rparr> =
               (stored ! i)\<lparr>o_y := o_y (stored ! i) + g i\<rparr>"
      using i by simp
    then have "o_y ((stored ! i)\<lparr>o_y := o_y (stored ! i) + f i\<rparr>) =
               o_y ((stored ! i)\<lparr>o_y := o_y (stored ! i) + g i\<rparr>)"
      by (rule arg_cong)
    then show "f i = g i" by simp
  qed
next
  assume "\<forall>i < length stored. f i = g i"
  then show "map (\<lambda>(r, i). r\<lparr>o_y := o_y r + f i\<rparr>) (zip stored [0..<length stored]) =
    map (\<lambda>(r, i). r\<lparr>o_y := o_y r + g i\<rparr>) (zip stored [0..<length stored])"
    by (auto dest!: set_zip_rightD)
qed


text \<open>
  Claim C9. \<^verbatim>\<open>load_item_data\<close> returns the stored observations of the item, sorted, with
  \<open>0.0 + 0.01 * z\<close> added to the \<open>i\<close>-th \<^verbatim>\<open>y\<close>, \<open>z\<close> being the next standard normal
  variates of the generator, which each call uses up. So two calls with the same arguments
  return the same rows in the same order but for \<^verbatim>\<open>y\<close>, and their \<^verbatim>\<open>y\<close> columns are equal
  only if the variates drawn were.
\<close>

theorem load_item_data_noise:
  assumes l1: "load_item_data E item_id dataset directory w1 = (Inr d1, w1', ev1)"
      and l2: "load_item_data E item_id dataset directory w2 = (Inr d2, w2', ev2)"
  shows "\<exists>Y_all S tags stored.
           FavoritaData_load E directory dataset = Inr (Y_all, S, tags) \<and>
           sort_hier_df (filter (\<lambda>r. r_item_id r = item_id) Y_all) S = Inr stored \<and>
           d_Y_df d1 = map (\<lambda>(r, i). r\<lparr>o_y := o_y r + std_normal E (rng_pos w1 + i) / 100\<rparr>)
                         (zip stored [0..<length stored]) \<and>
           d_Y_df d2 = map (\<lambda>(r, i). r\<lparr>o_y := o_y r + std_normal E (rng_pos w2 + i) / 100\<rparr>)
                         (zip stored [0..<length stored]) \<and>
           rng_pos w1' = rng_pos w1 + length stored \<and>
           map (\<lambda>r. r\<lparr>o_y := 0\<rparr>) (d_Y_df d1) = map (\<lambda>r. r\<lparr>o_y := 0\<rparr>) (d_Y_df d2) \<and>
           (d_Y_df d1 = d_Y_df d2 \<longleftrightarrow>
              (\<forall>i < length stored.
                 std_normal E (rng_pos w1 + i) = std_normal E (rng_pos w2 + i)))"
  using l1
proof (cases rule: load_item_data_result)
  case a: (1 info Y_all S tags stored)
  from l2 show ?thesis
  proof (cases rule: load_item_data_result)
    case b: (1 info' Y_all' S' tags' stored')
    have same: "stored' = stored" using a(2,3) b(2,3) by simp
    have y1: "d_Y_df d1 =
        map (\<lambda>(r, i). r\<lparr>o_y := o_y r + std_normal E (rng_pos w1 + i) / 100\<rparr>)
          (zip stored [0..<length stored])"
      unfolding a(4) by (rule add_noise_normal)
    have y2: "d_Y_df d2 =
        map (\<lambda>(r, i). r\<lparr>o_y := o_y r + std_normal E (rng_pos w2 + i) / 100\<rparr>)
          (zip stored [0..<length stored])"
      unfolding b(4) same by (rule add_noise_normal)
    have pos: "rng_pos w1' = rng_pos w1 + length stored"
      unfolding a(5) by (simp add: random_normal_def)
    have rows: "map (\<lambda>r. r\<lparr>o_y := 0\<rparr>) (d_Y_df d1) = map (\<lambda>r. r\<lparr>o_y := 0\<rparr>) (d_Y_df d2)"
      unfolding y1 y2 by (auto intro!: nth_equalityI)
    have "(d_Y_df d1 = d_Y_df d2) \<longleftrightarrow>
          (\<forall>i < length stored.
             std_normal E (rng_pos w1 + i) / 100 = std_normal E (rng_pos w2 + i) / 100)"
      unfolding y1 y2 by (rule noisy_rows_eq_iff)
    then have iff: "(d_Y_df d1 = d_Y_df d2) \<longleftrightarrow>
          (\<forall>i < length stored. std_normal E (rng_pos w1 + i) = std_normal E (rng_pos w2 + i))"
      by simp
    show ?thesis using a(2,3) y1 y2 pos rows iff by blast
  qed
qed


lemma demo_first_load:
  "(case load_item_data demo_env 7 ''Favorita200'' ''./data/favorita'' empty_world of
      (Inl e, w1, ev1) \<Rightarrow> False
    | (Inr d1, w1, ev1) \<Rightarrow>
        map o_y (d_Y_df d1) = [6, 801 / 100, 201 / 50, 503 / 100, 51 / 25, 61 / 20] \<and>
        (case load_item_data demo_env 7 ''Favorita200'' ''./data/favorita'' w1 of
           (Inl e, w2, ev2) \<Rightarrow> False
         | (Inr d2, w2, ev2) \<Rightarrow>
             map o_y (d_Y_df d2) =
               [303 / 50, 807 / 100, 102 / 25, 509 / 100, 21 / 10, 311 / 100]))"
  by code_simp

theorem load_item_data_noise_witness:
  "\<exists>d1 w1 ev1 d2 w2 ev2.
     load_item_data demo_env 7 ''Favorita200'' ''./data/favorita'' empty_world = (Inr d1, w1, ev1) \<and>
     load_item_data demo_env 7 ''Favorita200'' ''./data/favorita'' w1 = (Inr d2, w2, ev2) \<and>
     map o_y (d_Y_df d1) = [6, 801 / 100, 201 / 50, 503 / 100, 51 / 25, 61 / 20] \<and>
     map o_y (d_Y_df d2) = [303 / 50, 807 / 100, 102 / 25, 509 / 100, 21 / 10, 311 / 100] \<and>
     map (\<lambda>r. r\<lparr>o_y := 0\<rparr>) (d_Y_df d1) = map (\<lambda>r. r\<lparr>o_y := 0\<rparr>) (d_Y_df d2)"
proof -
  obtain d1 w1 ev1 where
    l1: "load_item_data demo_env 7 ''Favorita200'' ''./data/favorita'' empty_world = (Inr d1, w1, ev1)"
    and y1: "map o_y (d_Y_df d1) = [6, 801 / 100, 201 / 50, 503 / 100, 51 / 25, 61 / 20]"
    and nxt: "(case load_item_data demo_env 7 ''Favorita200'' ''./data/favorita'' w1 of
           (Inl e, w2, ev2) \<Rightarrow> False
         | (Inr d2, w2, ev2) \<Rightarrow>
             map o_y (d_Y_df d2) =
               [303 / 50, 807 / 100, 102 / 25, 509 / 100, 21 / 10, 311 / 100])"
    using demo_first_load
    by (cases "load_item_data demo_env 7 ''Favorita200'' ''./data/favorita'' empty_world")
       (auto split: sum.splits)
  obtain d2 w2 ev2 where
    l2: "load_item_data demo_env 7 ''Favorita200'' ''./data/favorita'' w1 = (Inr d2, w2, ev2)"
    and y2: "map o_y (d_Y_df d2) = [303 / 50, 807 / 100, 102 / 25, 509 / 100, 21 / 10, 311 / 100]"
    using nxt
    by (cases "load_item_data demo_env 7 ''Favorita200'' ''./data/favorita'' w1")
       (auto split: sum.splits)
  from load_item_data_noise [OF l1 l2]
  have "map (\<lambda>r. r\<lparr>o_y := 0\<rparr>) (d_Y_df d1) = map (\<lambda>r. r\<lparr>o_y := 0\<rparr>) (d_Y_df d2)"
    by blast
  then show ?thesis using l1 l2 y1 y2 by (intro exI conjI) assumption+
qed

end
